theory Spec2Isabelle
  imports
    Main
    "HOL-Library.Multiset"
    "HOL-Library.Sublist"
    "HOL-Library.List_Lexorder"
    "HOL-Library.Char_ord"
begin

section \<open>Strings\<close>

text \<open>
  JavaScript strings are modelled as \<open>string\<close>, a \<open>char\<close> standing for a code unit.
  \<open>toLowerCase\<close> folds the ASCII capitals and those of Latin-1 (\<open>0xC0\<close> to \<open>0xDE\<close> but
  the multiplication sign \<open>0xD7\<close>) to the letter 32 code units above. No character
  outside ASCII folds to an ASCII letter, under \<open>toLowerCase\<close> or under the \<open>i\<close> flag of
  a regular expression.
\<close>

definition toLowerCase_char :: "char \<Rightarrow> char" where
  "toLowerCase_char c =
     (if (CHR ''A'' \<le> c \<and> c \<le> CHR ''Z'') \<or>
         (CHR 0xC0 \<le> c \<and> c \<le> CHR 0xDE \<and> c \<noteq> CHR 0xD7)
      then char_of (of_char c + (32::nat)) else c)"

definition toLowerCase :: "string \<Rightarrow> string" where
  "toLowerCase s = map toLowerCase_char s"

definition endsWith :: "string \<Rightarrow> string \<Rightarrow> bool" where
  "endsWith s suf = (length suf \<le> length s \<and> drop (length s - length suf) s = suf)"

definition digit_char :: "nat \<Rightarrow> char" where
  "digit_char d = char_of (48 + d)"

text \<open>\<open>Number.prototype.toString()\<close> on a non-negative integer: its decimal digits.\<close>

fun nat_toString :: "nat \<Rightarrow> string" where
  "nat_toString n =
     (if n < 10 then [digit_char n] else nat_toString (n div 10) @ [digit_char (n mod 10)])"

declare nat_toString.simps [simp del]

section \<open>Paths (the POSIX half of Node's \<open>path\<close> module)\<close>

fun split_slash :: "string \<Rightarrow> string list" where
  "split_slash [] = [[]]"
| "split_slash (c # cs) =
     (if c = CHR ''/'' then [] # split_slash cs
      else (case split_slash cs of [] \<Rightarrow> [[c]] | s # ss \<Rightarrow> (c # s) # ss))"

fun intercalate_slash :: "string list \<Rightarrow> string" where
  "intercalate_slash [] = []"
| "intercalate_slash [s] = s"
| "intercalate_slash (s # t # ss) = s @ CHR ''/'' # intercalate_slash (t # ss)"

text \<open>
  \<open>normalizeString\<close>: the segments are read left to right onto a stack (kept reversed
  in \<open>acc\<close>). Empty segments and \<open>.\<close> are dropped; \<open>..\<close> removes the segment on top of
  the stack, and where there is none to remove it is kept only when \<open>allowAboveRoot\<close>.
\<close>

fun normalizeString :: "bool \<Rightarrow> string list \<Rightarrow> string list \<Rightarrow> string list" where
  "normalizeString allowAboveRoot acc [] = rev acc"
| "normalizeString allowAboveRoot acc (s # ss) =
     (if s = [] \<or> s = ''.'' then normalizeString allowAboveRoot acc ss
      else if s = ''..'' then
        (if acc \<noteq> [] \<and> hd acc \<noteq> ''..'' then normalizeString allowAboveRoot (tl acc) ss
         else if allowAboveRoot then normalizeString allowAboveRoot (''..'' # acc) ss
         else normalizeString allowAboveRoot acc ss)
      else normalizeString allowAboveRoot (s # acc) ss)"

definition path_normalize :: "string \<Rightarrow> string" where
  "path_normalize p =
     (if p = [] then ''.''
      else
        let isAbsolute = (hd p = CHR ''/'');
            trailingSeparator = (last p = CHR ''/'');
            q = intercalate_slash (normalizeString (\<not> isAbsolute) [] (split_slash p))
        in if q = [] then (if isAbsolute then ''/'' else if trailingSeparator then ''./'' else ''.'')
           else (if isAbsolute then ''/'' else []) @ q @ (if trailingSeparator then ''/'' else []))"

definition path_join :: "string list \<Rightarrow> string" where
  "path_join args =
     (let joined = filter (\<lambda>a. a \<noteq> []) args
      in if joined = [] then ''.'' else path_normalize (intercalate_slash joined))"

text \<open>
  \<open>path.extname\<close>: the part of the last path component from its last dot on; empty when
  the component has no dot, when its only dot is its first character, and for \<open>..\<close>.
  Trailing separators are ignored.
\<close>

definition extname :: "string \<Rightarrow> string" where
  "extname p =
     (let rbase = takeWhile (\<lambda>c. c \<noteq> CHR ''/'') (dropWhile (\<lambda>c. c = CHR ''/'') (rev p));
          rext = takeWhile (\<lambda>c. c \<noteq> CHR ''.'') rbase
      in if CHR ''.'' \<notin> set rbase then []
         else if drop (Suc (length rext)) rbase = [] then []
         else if rbase = ''..'' then []
         else CHR ''.'' # rev rext)"

section \<open>The job record and the registry\<close>

datatype job_type = Convert | Merge | FullProcess

datatype job_status = Pending | Processing | Completed | Failed

record job_steps =
  extract_step :: bool
  convert_step :: bool
  merge_step :: bool

record ProcessingJob =
  job_id :: string
  job_kind :: job_type
  status :: job_status
  progress :: int
  inputFiles :: "string list"
  outputFile :: "string option"
  error :: "string option"
  createdAt :: int
  steps :: "job_steps option"

text \<open>
  \<open>Partial<ProcessingJob>\<close>: every field optional. \<open>None\<close> is a property that the
  object literal does not have, which \<open>Object.assign\<close> leaves alone.
\<close>

record job_update =
  u_job_id :: "string option"
  u_job_kind :: "job_type option"
  u_status :: "job_status option"
  u_progress :: "int option"
  u_inputFiles :: "string list option"
  u_outputFile :: "string option"
  u_error :: "string option"
  u_createdAt :: "int option"
  u_steps :: "job_steps option"

definition no_update :: job_update where
  "no_update = \<lparr>u_job_id = None, u_job_kind = None, u_status = None, u_progress = None,
     u_inputFiles = None, u_outputFile = None, u_error = None, u_createdAt = None,
     u_steps = None\<rparr>"

definition object_assign :: "ProcessingJob \<Rightarrow> job_update \<Rightarrow> ProcessingJob" where
  "object_assign job u =
     \<lparr>job_id = (case u_job_id u of None \<Rightarrow> job_id job | Some v \<Rightarrow> v),
      job_kind = (case u_job_kind u of None \<Rightarrow> job_kind job | Some v \<Rightarrow> v),
      status = (case u_status u of None \<Rightarrow> status job | Some v \<Rightarrow> v),
      progress = (case u_progress u of None \<Rightarrow> progress job | Some v \<Rightarrow> v),
      inputFiles = (case u_inputFiles u of None \<Rightarrow> inputFiles job | Some v \<Rightarrow> v),
      outputFile = (case u_outputFile u of None \<Rightarrow> outputFile job | Some v \<Rightarrow> Some v),
      error = (case u_error u of None \<Rightarrow> error job | Some v \<Rightarrow> Some v),
      createdAt = (case u_createdAt u of None \<Rightarrow> createdAt job | Some v \<Rightarrow> v),
      steps = (case u_steps u of None \<Rightarrow> steps job | Some v \<Rightarrow> Some v)\<rparr>"

text \<open>
  The registry is a JavaScript \<open>Map\<close>: it iterates in insertion order, and \<open>set\<close> on a
  key it already holds replaces the value where it stands.
\<close>

type_synonym registry = "(string \<times> ProcessingJob) list"

fun map_set :: "registry \<Rightarrow> string \<Rightarrow> ProcessingJob \<Rightarrow> registry" where
  "map_set [] k v = [(k, v)]"
| "map_set ((k', v') # r) k v = (if k' = k then (k, v) # r else (k', v') # map_set r k v)"

definition getJob :: "registry \<Rightarrow> string \<Rightarrow> ProcessingJob option" where
  "getJob jobs jobId = map_of jobs jobId"

definition map_values :: "registry \<Rightarrow> ProcessingJob list" where
  "map_values jobs = map snd jobs"

text \<open>
  \<open>createJob\<close> reads the clock twice (\<open>Date.now()\<close> for the id, \<open>new Date()\<close> for
  \<open>createdAt\<close>) and the random generator once; \<open>rnd36\<close> is the text of
  \<open>Math.random().toString(36)\<close>, of which \<open>substr(2, 9)\<close> keeps at most nine characters
  after the first two.
\<close>

definition substr_2_9 :: "string \<Rightarrow> string" where
  "substr_2_9 s = take 9 (drop 2 s)"

definition new_jobId :: "nat \<Rightarrow> string \<Rightarrow> string" where
  "new_jobId now rnd36 = nat_toString now @ substr_2_9 rnd36"

definition createJob ::
  "nat \<Rightarrow> string \<Rightarrow> int \<Rightarrow> job_type \<Rightarrow> string list \<Rightarrow> registry \<Rightarrow> string \<times> registry" where
  "createJob now rnd36 date kind files jobs =
     (let jobId = new_jobId now rnd36;
          job = \<lparr>job_id = jobId, job_kind = kind, status = Pending, progress = 0,
                 inputFiles = files, outputFile = None, error = None, createdAt = date,
                 steps = (if kind = FullProcess
                          then Some \<lparr>extract_step = False, convert_step = False, merge_step = False\<rparr>
                          else None)\<rparr>
      in (jobId, map_set jobs jobId job))"

definition updateJob :: "registry \<Rightarrow> string \<Rightarrow> job_update \<Rightarrow> registry" where
  "updateJob jobs jobId updates =
     (case getJob jobs jobId of
        None \<Rightarrow> jobs
      | Some job \<Rightarrow> map_set jobs jobId (object_assign job updates))"

text \<open>
  \<open>Array.prototype.sort\<close> with a comparator is a stable sort: an element goes before
  the first element that the comparator does not put before it.
\<close>

fun insert_cmp :: "('a \<Rightarrow> 'a \<Rightarrow> int) \<Rightarrow> 'a \<Rightarrow> 'a list \<Rightarrow> 'a list" where
  "insert_cmp c x [] = [x]"
| "insert_cmp c x (y # ys) = (if c x y \<le> 0 then x # y # ys else y # insert_cmp c x ys)"

definition sort_cmp :: "('a \<Rightarrow> 'a \<Rightarrow> int) \<Rightarrow> 'a list \<Rightarrow> 'a list" where
  "sort_cmp c xs = foldr (insert_cmp c) xs []"

definition getAllJobs :: "registry \<Rightarrow> ProcessingJob list" where
  "getAllJobs jobs = sort_cmp (\<lambda>a b. createdAt b - createdAt a) (map_values jobs)"

section \<open>The world outside the process\<close>

text \<open>
  A thrown value is an \<open>Error\<close> object with its message, or something else.
  The file system, the unzip library and the child processes are collaborators whose
  answers are parameters of a run. A child process ends by a \<open>close\<close> event (with its
  exit code, \<open>null\<close> when a signal killed it, and all it wrote to stdout and stderr) or
  by an \<open>error\<close> event; \<open>spawn\<close> itself may throw.
\<close>

datatype exn = Error string | Thrown

datatype child = Close "nat option" string string | ErrorEvent string

datatype spawn_result = SpawnThrows exn | Child child

datatype dirent = File string | Dir string "dirent list" | Other string

record env =
  mkdir :: "string \<Rightarrow> exn option"
  extract_zip :: "string \<Rightarrow> string \<Rightarrow> exn option"
  spawn :: "string \<Rightarrow> string list \<Rightarrow> spawn_result"
  readdir :: "string \<Rightarrow> exn + dirent list"
  rm :: "string \<Rightarrow> exn option"
  existsSync :: "string \<Rightarrow> bool"
  readFile :: "string \<Rightarrow> exn + string"

definition uploadDir :: "string \<Rightarrow> string" where
  "uploadDir cwd = path_join [cwd, ''uploads'']"

definition outputDir :: "string \<Rightarrow> string" where
  "outputDir cwd = path_join [cwd, ''outputs'']"

section \<open>The adapters\<close>

definition code_toString :: "nat option \<Rightarrow> string" where
  "code_toString code = (case code of None \<Rightarrow> ''null'' | Some n \<Rightarrow> nat_toString n)"

text \<open>
  In the ZIP branch the source calls the value of \<open>import('extract-zip')\<close>. Whatever
  that call does, resolve or throw (a module namespace is not callable, and the call then
  throws a \<open>TypeError\<close>), is the answer of \<open>extract_zip\<close>.
\<close>

definition extractArchive :: "env \<Rightarrow> string \<Rightarrow> string \<Rightarrow> exn option" where
  "extractArchive w archivePath extractDir =
     (case mkdir w extractDir of
        Some e \<Rightarrow> Some e
      | None \<Rightarrow>
          let ext = toLowerCase (extname archivePath) in
          if ext = ''.zip'' then extract_zip w archivePath extractDir
          else if ext = ''.rar'' then
            (case spawn w ''which'' [''unrar''] of
               SpawnThrows e \<Rightarrow> Some e
             | Child checkUnrar \<Rightarrow>
                 let isUnrarAvailable =
                       (case checkUnrar of Close code out err \<Rightarrow> code = Some 0
                                         | ErrorEvent m \<Rightarrow> False)
                 in if \<not> isUnrarAvailable then
                      Some (Error ''RAR extraction is not supported on this system. Please install unrar utility or use ZIP files instead. For Ubuntu/Debian: sudo apt-get install unrar'')
                    else
                      (case spawn w ''unrar'' [''x'', ''-y'', archivePath, extractDir @ ''/''] of
                         SpawnThrows e \<Rightarrow> Some e
                       | Child (Close code out err) \<Rightarrow>
                           if code = Some 0 then None
                           else Some (Error (''RAR extraction failed with code '' @ code_toString code))
                       | Child (ErrorEvent m) \<Rightarrow>
                           Some (Error (''RAR extraction error: '' @ m @ ''. Please install unrar utility or use ZIP files instead.''))))
          else Some (Error ''Unsupported archive format. Please use ZIP or RAR files.''))"

text \<open>The test of \<open>/\.(html|htm)$/i\<close> on a file name.\<close>

definition html_regex_test :: "string \<Rightarrow> bool" where
  "html_regex_test name =
     (endsWith (toLowerCase name) ''.html'' \<or> endsWith (toLowerCase name) ''.htm'')"

fun scanEntry :: "string \<Rightarrow> dirent \<Rightarrow> string list"
  and scanDirectory :: "string \<Rightarrow> dirent list \<Rightarrow> string list" where
  "scanDirectory currentDir [] = []"
| "scanDirectory currentDir (entry # entries) =
     scanEntry currentDir entry @ scanDirectory currentDir entries"
| "scanEntry currentDir (Dir name sub) = scanDirectory (path_join [currentDir, name]) sub"
| "scanEntry currentDir (File name) =
     (if html_regex_test name then [path_join [currentDir, name]] else [])"
| "scanEntry currentDir (Other name) = []"

text \<open>
  \<open>files.sort()\<close> without a comparator orders strings by their code units, which is the
  lexicographic order of \<open>string\<close>.
\<close>

definition findHtmlFiles :: "env \<Rightarrow> string \<Rightarrow> exn + string list" where
  "findHtmlFiles w dir =
     (case readdir w dir of
        Inl e \<Rightarrow> Inl e
      | Inr entries \<Rightarrow> Inr (sort (scanDirectory dir entries)))"

definition pythonExecutables :: "string list" where
  "pythonExecutables = [''python3'', ''python'', ''/usr/bin/python3'', ''/usr/local/bin/python3'']"

fun first_spawned :: "env \<Rightarrow> string list \<Rightarrow> string list \<Rightarrow> child option" where
  "first_spawned w [] args = None"
| "first_spawned w (executable # rest) args =
     (case spawn w executable args of
        SpawnThrows e \<Rightarrow> first_spawned w rest args
      | Child python \<Rightarrow> Some python)"

definition run_python :: "env \<Rightarrow> string list \<Rightarrow> string \<Rightarrow> exn option" where
  "run_python w args failure =
     (case first_spawned w pythonExecutables args of
        None \<Rightarrow> Some (Error ''Python executable not found. Please ensure Python 3.x is installed.'')
      | Some (Close code out err) \<Rightarrow>
          if code = Some 0 then None
          else Some (Error (failure @ (if err \<noteq> [] then err else out)))
      | Some (ErrorEvent m) \<Rightarrow> Some (Error (''Failed to start Python script: '' @ m)))"

text \<open>
  The two Python adapters differ in their arguments and in the prefix of the failure
  message only. \<open>path.resolve\<close> on the absolute working directory is \<open>path.join\<close>.
\<close>

definition convertHtmlToPdf :: "env \<Rightarrow> string \<Rightarrow> string \<Rightarrow> string \<Rightarrow> exn option" where
  "convertHtmlToPdf w cwd inputDir outDir =
     run_python w
       [path_join [cwd, ''backend'', ''convert_with_playwright.py''],
        ''--input-dir'', inputDir, ''--pattern'', ''*.html'', ''--out-dir'', outDir]
       ''HTML to PDF conversion failed: ''"

definition mergePdfs :: "env \<Rightarrow> string \<Rightarrow> string \<Rightarrow> string \<Rightarrow> exn option" where
  "mergePdfs w cwd pdfDir outputPath =
     run_python w
       [path_join [cwd, ''backend'', ''merge_pdfs.py''],
        ''--input-dir'', pdfDir, ''--pattern'', ''*.pdf'', ''--output'', outputPath]
       ''PDF merge failed: ''"

text \<open>\<open>cleanup\<close> catches whatever \<open>fs.rm\<close> throws and only logs it.\<close>

definition cleanup :: "env \<Rightarrow> string \<Rightarrow> string \<Rightarrow> unit" where
  "cleanup w extractDir pdfDir =
     (case rm w extractDir of Some e \<Rightarrow> () | None \<Rightarrow> (case rm w pdfDir of Some e \<Rightarrow> () | None \<Rightarrow> ()))"

section \<open>The orchestrator\<close>

text \<open>The object literals that \<open>processArchive\<close> passes to \<open>updateJob\<close>.\<close>

definition update_processing :: job_update where
  "update_processing = no_update\<lparr>u_status := Some Processing, u_progress := Some 10\<rparr>"

definition update_extracted :: job_update where
  "update_extracted = no_update\<lparr>u_progress := Some 30,
     u_steps := Some \<lparr>extract_step = True, convert_step = False, merge_step = False\<rparr>\<rparr>"

definition update_found :: job_update where
  "update_found = no_update\<lparr>u_progress := Some 40\<rparr>"

definition update_converted :: job_update where
  "update_converted = no_update\<lparr>u_progress := Some 70,
     u_steps := Some \<lparr>extract_step = True, convert_step = True, merge_step = False\<rparr>\<rparr>"

definition update_completed :: "string \<Rightarrow> job_update" where
  "update_completed jobId = no_update\<lparr>u_status := Some Completed, u_progress := Some 100,
     u_outputFile := Some (''merged_'' @ jobId @ ''.pdf''),
     u_steps := Some \<lparr>extract_step = True, convert_step = True, merge_step = True\<rparr>\<rparr>"

definition error_message :: "exn \<Rightarrow> string" where
  "error_message e = (case e of Error m \<Rightarrow> m | Thrown \<Rightarrow> ''Unknown error occurred'')"

definition catch_update :: "exn \<Rightarrow> job_update" where
  "catch_update e = no_update\<lparr>u_status := Some Failed, u_error := Some (error_message e)\<rparr>"

text \<open>
  The \<open>try\<close> block, threading the registry: it ends with the exception thrown, if any,
  and the registry as it stands at that point.
\<close>

definition try_block :: "env \<Rightarrow> string \<Rightarrow> string \<Rightarrow> string \<Rightarrow> registry \<Rightarrow> exn option \<times> registry" where
  "try_block w cwd jobId archivePath jobs0 =
     (let jobs1 = updateJob jobs0 jobId update_processing;
          extractDir = path_join [uploadDir cwd, ''extracted_'' @ jobId]
      in case extractArchive w archivePath extractDir of
           Some e \<Rightarrow> (Some e, jobs1)
         | None \<Rightarrow>
      let jobs2 = updateJob jobs1 jobId update_extracted
      in case findHtmlFiles w extractDir of
           Inl e \<Rightarrow> (Some e, jobs2)
         | Inr htmlFiles \<Rightarrow>
      if length htmlFiles = 0
      then (Some (Error ''No HTML files found in the archive''), jobs2)
      else
      let jobs3 = updateJob jobs2 jobId update_found;
          pdfDir = path_join [outputDir cwd, ''pdfs_'' @ jobId]
      in case mkdir w pdfDir of
           Some e \<Rightarrow> (Some e, jobs3)
         | None \<Rightarrow>
      case convertHtmlToPdf w cwd extractDir pdfDir of
           Some e \<Rightarrow> (Some e, jobs3)
         | None \<Rightarrow>
      let jobs4 = updateJob jobs3 jobId update_converted;
          mergedPdfPath = path_join [outputDir cwd, ''merged_'' @ jobId @ ''.pdf'']
      in case mergePdfs w cwd pdfDir mergedPdfPath of
           Some e \<Rightarrow> (Some e, jobs4)
         | None \<Rightarrow>
      let jobs5 = updateJob jobs4 jobId (update_completed jobId);
          cleaned = cleanup w extractDir pdfDir
      in (None, jobs5))"

text \<open>
  The run: where the \<open>try\<close> block throws, the \<open>catch\<close> block records the failure and
  throws the same exception again. \<open>Inl e\<close> is the exception that reaches the caller,
  \<open>Inr ()\<close> the promise resolved; with it, the registry the run leaves.
\<close>

definition processArchive ::
  "env \<Rightarrow> string \<Rightarrow> string \<Rightarrow> string \<Rightarrow> registry \<Rightarrow> (exn + unit) \<times> registry" where
  "processArchive w cwd jobId archivePath jobs =
     (case try_block w cwd jobId archivePath jobs of
        (None, jobs') \<Rightarrow> (Inr (), jobs')
      | (Some e, jobs') \<Rightarrow> (Inl e, updateJob jobs' jobId (catch_update e)))"

text \<open>
  \<open>processArchive\<close> writes the registry and never reads it, and no adapter touches it.
  So the same run is also the list of the updates it issues, in order, together with
  the exception that ended the \<open>try\<close> block, if any; the registry after each update is
  an observable point of the run.
\<close>

definition try_block_updates :: "env \<Rightarrow> string \<Rightarrow> string \<Rightarrow> string \<Rightarrow> job_update list \<times> exn option" where
  "try_block_updates w cwd jobId archivePath =
     (let extractDir = path_join [uploadDir cwd, ''extracted_'' @ jobId]
      in case extractArchive w archivePath extractDir of
           Some e \<Rightarrow> ([update_processing], Some e)
         | None \<Rightarrow>
      case findHtmlFiles w extractDir of
           Inl e \<Rightarrow> ([update_processing, update_extracted], Some e)
         | Inr htmlFiles \<Rightarrow>
      if length htmlFiles = 0
      then ([update_processing, update_extracted],
            Some (Error ''No HTML files found in the archive''))
      else
      let pdfDir = path_join [outputDir cwd, ''pdfs_'' @ jobId]
      in case mkdir w pdfDir of
           Some e \<Rightarrow> ([update_processing, update_extracted, update_found], Some e)
         | None \<Rightarrow>
      case convertHtmlToPdf w cwd extractDir pdfDir of
           Some e \<Rightarrow> ([update_processing, update_extracted, update_found], Some e)
         | None \<Rightarrow>
      let mergedPdfPath = path_join [outputDir cwd, ''merged_'' @ jobId @ ''.pdf'']
      in case mergePdfs w cwd pdfDir mergedPdfPath of
           Some e \<Rightarrow>
             ([update_processing, update_extracted, update_found, update_converted], Some e)
         | None \<Rightarrow>
      let cleaned = cleanup w extractDir pdfDir
      in ([update_processing, update_extracted, update_found, update_converted,
           update_completed jobId], None))"

definition processArchive_updates :: "env \<Rightarrow> string \<Rightarrow> string \<Rightarrow> string \<Rightarrow> job_update list" where
  "processArchive_updates w cwd jobId archivePath =
     (case try_block_updates w cwd jobId archivePath of
        (us, None) \<Rightarrow> us
      | (us, Some e) \<Rightarrow> us @ [catch_update e])"

text \<open>The registry before the run and after each of its updates, oldest first.\<close>

fun snapshots :: "registry \<Rightarrow> string \<Rightarrow> job_update list \<Rightarrow> registry list" where
  "snapshots jobs jobId [] = [jobs]"
| "snapshots jobs jobId (u # us) = jobs # snapshots (updateJob jobs jobId u) jobId us"

definition processArchive_trace ::
  "env \<Rightarrow> string \<Rightarrow> string \<Rightarrow> string \<Rightarrow> registry \<Rightarrow> registry list" where
  "processArchive_trace w cwd jobId archivePath jobs =
     snapshots jobs jobId (processArchive_updates w cwd jobId archivePath)"

text \<open>What a reader polling one job sees: its record at each observable point.\<close>

definition job_trace ::
  "env \<Rightarrow> string \<Rightarrow> string \<Rightarrow> string \<Rightarrow> registry \<Rightarrow> ProcessingJob list" where
  "job_trace w cwd jobId archivePath jobs =
     List.map_filter (\<lambda>r. getJob r jobId) (processArchive_trace w cwd jobId archivePath jobs)"

fun job_history :: "ProcessingJob \<Rightarrow> job_update list \<Rightarrow> ProcessingJob list" where
  "job_history job [] = [job]"
| "job_history job (u # us) = job # job_history (object_assign job u) us"

section \<open>Download\<close>

definition downloadFile :: "env \<Rightarrow> string \<Rightarrow> string \<Rightarrow> string option" where
  "downloadFile w cwd filename =
     (let filePath = path_join [outputDir cwd, filename]
      in if existsSync w filePath then Some filePath else None)"

text \<open>
  The download route: 404 when \<open>downloadFile\<close> finds nothing, the bytes of the file as
  an attachment named after the request when it can be read, 500 when reading throws or
  when the \<open>Content-Disposition\<close> header cannot be built: a header value with a NUL, a
  line feed or a carriage return is refused with a \<open>TypeError\<close>.
\<close>

datatype response = Json nat string | Attachment string string

definition header_value_ok :: "string \<Rightarrow> bool" where
  "header_value_ok v =
     (CHR 0x00 \<notin> set v \<and> CHR 0x0A \<notin> set v \<and> CHR 0x0D \<notin> set v)"

definition download_GET :: "env \<Rightarrow> string \<Rightarrow> string \<Rightarrow> response" where
  "download_GET w cwd filename =
     (case downloadFile w cwd filename of
        None \<Rightarrow> Json 404 ''File not found''
      | Some filePath \<Rightarrow>
          (case readFile w filePath of
             Inl e \<Rightarrow> Json 500 ''Failed to download file''
           | Inr fileBuffer \<Rightarrow>
               if header_value_ok (''attachment; filename='' @ [CHR 0x22] @ filename @ [CHR 0x22])
               then Attachment fileBuffer filename
               else Json 500 ''Failed to download file''))"

text \<open>A path is inside a directory when it is the directory or continues it after a separator.\<close>

definition inside_dir :: "string \<Rightarrow> string \<Rightarrow> bool" where
  "inside_dir dir p = (p = dir \<or> prefix (dir @ ''/'') p)"

section \<open>Properties stated about jobs\<close>

text \<open>What a completed job must look like.\<close>

definition completed_ok :: "ProcessingJob \<Rightarrow> bool" where
  "completed_ok j =
     (status j = Completed \<longrightarrow>
        (case outputFile j of None \<Rightarrow> False | Some f \<Rightarrow> f \<noteq> []) \<and> progress j = 100 \<and>
        error j = None \<and>
        (case steps j of None \<Rightarrow> True
         | Some s \<Rightarrow> extract_step s \<and> convert_step s \<and> merge_step s))"

text \<open>
  The errors that come from outside (the file system, the unzip library, \<open>spawn\<close>)
  carry a message, as Node's and the library's errors do.
\<close>

definition external_messages_nonempty :: "env \<Rightarrow> bool" where
  "external_messages_nonempty w =
     ((\<forall>p. mkdir w p \<noteq> Some (Error [])) \<and>
      (\<forall>a d. extract_zip w a d \<noteq> Some (Error [])) \<and>
      (\<forall>c args. spawn w c args \<noteq> SpawnThrows (Error [])) \<and>
      (\<forall>p. readdir w p \<noteq> Inl (Error [])))"

text \<open>
  The directories and the output path of a job, as \<open>processArchive\<close> names them, and the
  two ways a run can end: thrown to the caller with the job failed and the message of
  the exception recorded, or resolved with the job completed.
\<close>

definition extractDir_of :: "string \<Rightarrow> string \<Rightarrow> string" where
  "extractDir_of cwd jobId = path_join [uploadDir cwd, ''extracted_'' @ jobId]"

definition pdfDir_of :: "string \<Rightarrow> string \<Rightarrow> string" where
  "pdfDir_of cwd jobId = path_join [outputDir cwd, ''pdfs_'' @ jobId]"

definition mergedPdfPath_of :: "string \<Rightarrow> string \<Rightarrow> string" where
  "mergedPdfPath_of cwd jobId = path_join [outputDir cwd, ''merged_'' @ jobId @ ''.pdf'']"

definition run_failed_with ::
  "env \<Rightarrow> string \<Rightarrow> string \<Rightarrow> string \<Rightarrow> registry \<Rightarrow> exn \<Rightarrow> bool" where
  "run_failed_with w cwd jobId archivePath jobs e =
     (fst (processArchive w cwd jobId archivePath jobs) = Inl e \<and>
      map_option status (getJob (snd (processArchive w cwd jobId archivePath jobs)) jobId) =
        Some Failed \<and>
      map_option error (getJob (snd (processArchive w cwd jobId archivePath jobs)) jobId) =
        Some (Some (error_message e)))"

definition run_completed :: "env \<Rightarrow> string \<Rightarrow> string \<Rightarrow> string \<Rightarrow> registry \<Rightarrow> bool" where
  "run_completed w cwd jobId archivePath jobs =
     (fst (processArchive w cwd jobId archivePath jobs) = Inr () \<and>
      map_option status (getJob (snd (processArchive w cwd jobId archivePath jobs)) jobId) =
        Some Completed)"

text \<open>From one observation of \<open>steps\<close> to a later one: no flag goes back to false.\<close>

definition steps_advance :: "job_steps option \<Rightarrow> job_steps option \<Rightarrow> bool" where
  "steps_advance a b =
     (case a of None \<Rightarrow> True
      | Some s \<Rightarrow>
          (case b of None \<Rightarrow> False
           | Some t \<Rightarrow> (extract_step s \<longrightarrow> extract_step t) \<and>
                       (convert_step s \<longrightarrow> convert_step t) \<and>
                       (merge_step s \<longrightarrow> merge_step t)))"

section \<open>Sample inputs\<close>

definition sample_tree :: "dirent list" where
  "sample_tree =
     [File ''b.HTML'', Dir ''sub'' [File ''a.htm'', File ''notes.txt'', Other ''link.html''],
      File ''readme.md'']"

text \<open>
  A world with \<open>unrar\<close> and Python installed, where every child process exits with
  code 0 and the call of the imported unzip module throws; and one where the merge script
  fails. The samples run on a RAR archive.
\<close>

definition sample_world :: env where
  "sample_world =
     \<lparr>mkdir = (\<lambda>p. None),
      extract_zip = (\<lambda>a d. Some (Error ''extract is not a function'')),
      spawn = (\<lambda>c args. Child (Close (Some 0) [] [])),
      readdir = (\<lambda>p. Inr sample_tree), rm = (\<lambda>p. None),
      existsSync = (\<lambda>p. p = ''/app/uploads/a.zip'' \<or> p = ''/app/outputs/merged_5abc.pdf''),
      readFile = (\<lambda>p. if p = ''/app/uploads/a.zip'' then Inr ''PK-uploaded''
                       else if p = ''/app/outputs/merged_5abc.pdf'' then Inr ''%PDF-merged''
                       else Inl (Error ''ENOENT: no such file or directory''))\<rparr>"

definition merge_failing_world :: env where
  "merge_failing_world =
     sample_world\<lparr>spawn := (\<lambda>c args.
        if ''--output'' \<in> set args then Child (Close (Some 1) [] ''no pages'')
        else Child (Close (Some 0) [] []))\<rparr>"

definition sample_jobs :: registry where
  "sample_jobs = snd (createJob 5 ''0.abc'' 7 FullProcess [''a.rar''] [])"

definition sample_job :: ProcessingJob where
  "sample_job =
     \<lparr>job_id = ''5abc'', job_kind = FullProcess, status = Pending, progress = 0,
      inputFiles = [''a.rar''], outputFile = None, error = None, createdAt = 7,
      steps = Some \<lparr>extract_step = False, convert_step = False, merge_step = False\<rparr>\<rparr>"

text \<open>A job of another kind than the upload route creates.\<close>

definition convert_jobs :: registry where
  "convert_jobs = snd (createJob 5 ''0.abc'' 7 Convert [''a.rar''] [])"

definition convert_job :: ProcessingJob where
  "convert_job =
     \<lparr>job_id = ''5abc'', job_kind = Convert, status = Pending, progress = 0,
      inputFiles = [''a.rar''], outputFile = None, error = None, createdAt = 7,
      steps = None\<rparr>"

text \<open>Three jobs, two of them created at the same time.\<close>

definition three_jobs :: registry where
  "three_jobs =
     snd (createJob 3 ''0.c'' 5 FullProcess [''c.zip'']
       (snd (createJob 2 ''0.b'' 9 FullProcess [''b.zip'']
         (snd (createJob 1 ''0.a'' 5 FullProcess [''a.zip''] [])))))"

text \<open>
  The files a tree holds, stated apart from the scan: how many regular files have a
  matching name, and at which full paths they are.
\<close>

fun count_entry :: "dirent \<Rightarrow> nat" and count_html :: "dirent list \<Rightarrow> nat" where
  "count_html [] = 0"
| "count_html (entry # entries) = count_entry entry + count_html entries"
| "count_entry (Dir name sub) = count_html sub"
| "count_entry (File name) = (if html_regex_test name then 1 else 0)"
| "count_entry (Other name) = 0"

inductive html_file_at :: "string \<Rightarrow> dirent list \<Rightarrow> string \<Rightarrow> bool" where
  here: "File name \<in> set entries \<Longrightarrow> html_regex_test name \<Longrightarrow>
         html_file_at dir entries (path_join [dir, name])"
| below: "Dir name sub \<in> set entries \<Longrightarrow> html_file_at (path_join [dir, name]) sub p \<Longrightarrow>
          html_file_at dir entries p"

code_pred html_file_at .

definition no_html_world :: env where
  "no_html_world = sample_world\<lparr>readdir := (\<lambda>p. Inr [File ''readme.md'', Dir ''empty'' []])\<rparr>"

text \<open>Segments that normalisation leaves as they are.\<close>

definition clean_segments :: "string list \<Rightarrow> bool" where
  "clean_segments ss =
     (\<forall>s \<in> set ss. s \<noteq> [] \<and> s \<noteq> ''.'' \<and> s \<noteq> ''..'' \<and> CHR ''/'' \<notin> set s)"

section \<open>Registry lemmas\<close>

lemma map_of_map_set: "map_of (map_set r k v) = (map_of r)(k \<mapsto> v)"
  by (induction r) (auto simp: fun_eq_iff)

lemma getJob_empty: "getJob [] k = None"
  by (simp add: getJob_def)

lemma getJob_updateJob:
  "getJob (updateJob jobs jobId u) k =
     (if k = jobId then map_option (\<lambda>j. object_assign j u) (getJob jobs jobId)
      else getJob jobs k)"
  by (simp add: getJob_def updateJob_def map_of_map_set split: option.splits)

lemma getJob_updateJob_same:
  "getJob jobs jobId = Some job \<Longrightarrow>
   getJob (updateJob jobs jobId u) jobId = Some (object_assign job u)"
  by (simp add: getJob_def updateJob_def map_of_map_set)

lemma getJob_updateJob_other:
  "k \<noteq> jobId \<Longrightarrow> getJob (updateJob jobs jobId u) k = getJob jobs k"
  by (simp add: getJob_def updateJob_def map_of_map_set split: option.splits)

lemma getJob_createJob:
  "getJob (snd (createJob now rnd36 date kind files jobs)) k =
     (if k = new_jobId now rnd36
      then Some \<lparr>job_id = new_jobId now rnd36, job_kind = kind, status = Pending, progress = 0,
                 inputFiles = files, outputFile = None, error = None, createdAt = date,
                 steps = (if kind = FullProcess
                          then Some \<lparr>extract_step = False, convert_step = False, merge_step = False\<rparr>
                          else None)\<rparr>
      else getJob jobs k)"
  by (simp add: createJob_def Let_def getJob_def map_of_map_set)

section \<open>Runs as lists of updates\<close>

lemma snapshots_nonempty: "snapshots jobs jobId us \<noteq> []"
  by (cases us) auto

lemma last_snapshots:
  "last (snapshots jobs jobId us) = foldl (\<lambda>r u. updateJob r jobId u) jobs us"
  by (induction us arbitrary: jobs) (simp_all add: snapshots_nonempty)

lemma map_filter_snapshots:
  "getJob jobs jobId = Some job \<Longrightarrow>
   List.map_filter (\<lambda>r. getJob r jobId) (snapshots jobs jobId us) = job_history job us"
  by (induction us arbitrary: jobs job)
     (simp_all add: List.map_filter_simps getJob_updateJob_same)

lemma snapshots_other:
  "k \<noteq> jobId \<Longrightarrow> r \<in> set (snapshots jobs jobId us) \<Longrightarrow> getJob r k = getJob jobs k"
  by (induction us arbitrary: jobs) (auto simp: getJob_updateJob_other)

lemma snapshot_job:
  assumes "getJob jobs jobId = Some job" and "r \<in> set (snapshots jobs jobId us)"
  shows "\<exists>j \<in> set (job_history job us). getJob r jobId = Some j"
  using assms
proof (induction us arbitrary: jobs job)
  case Nil
  then show ?case by simp
next
  case (Cons u us)
  from Cons.prems(2) consider "r = jobs" | "r \<in> set (snapshots (updateJob jobs jobId u) jobId us)"
    by auto
  then show ?case
  proof cases
    case 1
    then show ?thesis using Cons.prems(1) by simp
  next
    case 2
    from Cons.IH [OF getJob_updateJob_same [OF Cons.prems(1)] 2] show ?thesis by auto
  qed
qed

lemma job_trace_history:
  "getJob jobs jobId = Some job \<Longrightarrow>
   job_trace w cwd jobId ap jobs = job_history job (processArchive_updates w cwd jobId ap)"
  by (simp add: job_trace_def processArchive_trace_def map_filter_snapshots)

text \<open>The five ways through the \<open>try\<close> block.\<close>

lemma try_block_cases:
  "(\<exists>e. try_block_updates w cwd jobId ap = ([update_processing], Some e)) \<or>
   (\<exists>e. try_block_updates w cwd jobId ap = ([update_processing, update_extracted], Some e)) \<or>
   (\<exists>e. try_block_updates w cwd jobId ap =
      ([update_processing, update_extracted, update_found], Some e)) \<or>
   (\<exists>e. try_block_updates w cwd jobId ap =
      ([update_processing, update_extracted, update_found, update_converted], Some e)) \<or>
   try_block_updates w cwd jobId ap =
      ([update_processing, update_extracted, update_found, update_converted,
        update_completed jobId], None)"
  unfolding try_block_updates_def Let_def
  by (simp split: option.splits sum.splits)

lemma try_block_updates_eq:
  "try_block w cwd jobId ap jobs =
     (snd (try_block_updates w cwd jobId ap),
      foldl (\<lambda>r u. updateJob r jobId u) jobs (fst (try_block_updates w cwd jobId ap)))"
  unfolding try_block_def try_block_updates_def Let_def
  by (simp split: option.splits sum.splits)

lemma processArchive_unfold:
  "processArchive w cwd jobId ap jobs =
     ((case snd (try_block_updates w cwd jobId ap) of None \<Rightarrow> Inr () | Some e \<Rightarrow> Inl e),
      foldl (\<lambda>r u. updateJob r jobId u) jobs (processArchive_updates w cwd jobId ap))"
  by (simp add: processArchive_def try_block_updates_eq processArchive_updates_def
      split: option.splits prod.splits)

lemma run_cases:
  obtains
    (extract_failed) e where
      "try_block_updates w cwd jobId ap = ([update_processing], Some e)"
      "processArchive_updates w cwd jobId ap = [update_processing, catch_update e]"
  | (discover_failed) e where
      "try_block_updates w cwd jobId ap = ([update_processing, update_extracted], Some e)"
      "processArchive_updates w cwd jobId ap =
         [update_processing, update_extracted, catch_update e]"
  | (convert_failed) e where
      "try_block_updates w cwd jobId ap = ([update_processing, update_extracted, update_found], Some e)"
      "processArchive_updates w cwd jobId ap =
         [update_processing, update_extracted, update_found, catch_update e]"
  | (merge_failed) e where
      "try_block_updates w cwd jobId ap =
         ([update_processing, update_extracted, update_found, update_converted], Some e)"
      "processArchive_updates w cwd jobId ap =
         [update_processing, update_extracted, update_found, update_converted, catch_update e]"
  | (succeeded)
      "try_block_updates w cwd jobId ap =
         ([update_processing, update_extracted, update_found, update_converted,
           update_completed jobId], None)"
      "processArchive_updates w cwd jobId ap =
         [update_processing, update_extracted, update_found, update_converted,
          update_completed jobId]"
  using try_block_cases [of w cwd jobId ap]
  by (auto simp: processArchive_updates_def)

lemmas update_defs = update_processing_def update_extracted_def update_found_def
  update_converted_def update_completed_def catch_update_def no_update_def

lemma job_history_completed_ok:
  assumes "status job = Pending" and "error job = None"
  shows "\<forall>j \<in> set (job_history job (processArchive_updates w cwd jobId ap)). completed_ok j"
  using assms
  by (cases rule: run_cases [of w cwd jobId ap])
     (simp_all add: object_assign_def update_defs completed_ok_def)

section \<open>Completed jobs\<close>

text \<open>
  Claim C3. In every job of the registry, at every observable point, a status of
  completed comes with an output file of non-empty name, progress 100, no error and,
  where the job has steps, all three flags set. The property holds of a registry and is
  kept by every update of a run that starts on a pending job without an error, and by
  the creation of a job.
\<close>

theorem completed_invariant:
  assumes "\<forall>k j. getJob jobs k = Some j \<longrightarrow> completed_ok j"
    and "getJob jobs jobId = Some job" and "status job = Pending" and "error job = None"
  shows "(\<forall>r \<in> set (processArchive_trace w cwd jobId ap jobs).
            \<forall>k j. getJob r k = Some j \<longrightarrow> completed_ok j) \<and>
         (\<forall>k j. getJob (snd (createJob now rnd36 date kind files jobs)) k = Some j \<longrightarrow>
            completed_ok j)"
proof (intro conjI ballI allI impI)
  fix r k j
  assume r: "r \<in> set (processArchive_trace w cwd jobId ap jobs)" and j: "getJob r k = Some j"
  show "completed_ok j"
  proof (cases "k = jobId")
    case True
    from snapshot_job [OF assms(2)] r obtain j'
      where "j' \<in> set (job_history job (processArchive_updates w cwd jobId ap))"
        and "getJob r jobId = Some j'"
      unfolding processArchive_trace_def by blast
    with j True job_history_completed_ok [OF assms(3,4), of w cwd jobId ap]
    show ?thesis by simp
  next
    case False
    then have "getJob r k = getJob jobs k"
      using r unfolding processArchive_trace_def by (rule snapshots_other)
    with j assms(1) show ?thesis by simp
  qed
next
  fix k j
  assume "getJob (snd (createJob now rnd36 date kind files jobs)) k = Some j"
  with assms(1) show "completed_ok j"
    by (auto simp: getJob_createJob completed_ok_def split: if_splits)
qed

theorem completed_invariant_witness:
  "getJob sample_jobs ''5abc'' = Some sample_job \<and> status sample_job = Pending \<and>
   error sample_job = None \<and>
   getJob (last (processArchive_trace sample_world ''/app'' ''5abc'' ''/app/uploads/a.rar''
     sample_jobs)) ''5abc'' =
     Some (sample_job\<lparr>status := Completed, progress := 100,
       outputFile := Some ''merged_5abc.pdf'',
       steps := Some \<lparr>extract_step = True, convert_step = True, merge_step = True\<rparr>\<rparr>) \<and>
   completed_ok (sample_job\<lparr>status := Completed, progress := 100,
       outputFile := Some ''merged_5abc.pdf'',
       steps := Some \<lparr>extract_step = True, convert_step = True, merge_step = True\<rparr>\<rparr>)"
proof -
  let ?tr = "processArchive_trace sample_world ''/app'' ''5abc'' ''/app/uploads/a.rar'' sample_jobs"
  let ?fin = "sample_job\<lparr>status := Completed, progress := 100,
       outputFile := Some ''merged_5abc.pdf'',
       steps := Some \<lparr>extract_step = True, convert_step = True, merge_step = True\<rparr>\<rparr>"
  have h1: "getJob sample_jobs ''5abc'' = Some sample_job" by code_simp
  have h2: "status sample_job = Pending" by code_simp
  have h3: "error sample_job = None" by code_simp
  have h0: "\<forall>k j. getJob sample_jobs k = Some j \<longrightarrow> completed_ok j"
    by (auto simp: sample_jobs_def getJob_createJob getJob_empty completed_ok_def
          split: if_splits)
  have m: "last ?tr \<in> set ?tr"
    by (simp add: processArchive_trace_def snapshots_nonempty)
  have g: "getJob (last ?tr) ''5abc'' = Some ?fin" by code_simp
  from completed_invariant [OF h0 h1 h2 h3] m g have "completed_ok ?fin" by blast
  with h1 h2 h3 g show ?thesis by simp
qed

section \<open>The order of statuses\<close>

text \<open>
  Claim C4. Over a run, a job that starts pending is seen pending, then processing
  (once or more), then completed or failed, and that is the last status it takes: no
  update of the run follows the one that made it completed or failed.
\<close>

theorem status_order:
  assumes "getJob jobs jobId = Some job" and "status job = Pending"
  shows "\<exists>n fin. 1 \<le> n \<and> (fin = Completed \<or> fin = Failed) \<and>
           map status (job_trace w cwd jobId ap jobs) = Pending # replicate n Processing @ [fin]"
proof (cases rule: run_cases [of w cwd jobId ap])
  case (extract_failed e)
  have "map status (job_trace w cwd jobId ap jobs) =
          Pending # replicate (Suc 0) Processing @ [Failed]"
    using assms extract_failed(2) by (simp add: job_trace_history object_assign_def update_defs)
  then show ?thesis by (metis One_nat_def order_refl)
next
  case (discover_failed e)
  have "map status (job_trace w cwd jobId ap jobs) =
          Pending # replicate (Suc (Suc 0)) Processing @ [Failed]"
    using assms discover_failed(2) by (simp add: job_trace_history object_assign_def update_defs)
  then show ?thesis by (metis One_nat_def Suc_leI zero_less_Suc)
next
  case (convert_failed e)
  have "map status (job_trace w cwd jobId ap jobs) =
          Pending # replicate (Suc (Suc (Suc 0))) Processing @ [Failed]"
    using assms convert_failed(2) by (simp add: job_trace_history object_assign_def update_defs)
  then show ?thesis by (metis One_nat_def Suc_leI zero_less_Suc)
next
  case (merge_failed e)
  have "map status (job_trace w cwd jobId ap jobs) =
          Pending # replicate (Suc (Suc (Suc (Suc 0)))) Processing @ [Failed]"
    using assms merge_failed(2) by (simp add: job_trace_history object_assign_def update_defs)
  then show ?thesis by (metis One_nat_def Suc_leI zero_less_Suc)
next
  case succeeded
  have "map status (job_trace w cwd jobId ap jobs) =
          Pending # replicate (Suc (Suc (Suc (Suc 0)))) Processing @ [Completed]"
    using assms succeeded(2) by (simp add: job_trace_history object_assign_def update_defs)
  then show ?thesis by (metis One_nat_def Suc_leI zero_less_Suc)
qed

theorem status_order_witness:
  "getJob sample_jobs ''5abc'' = Some sample_job \<and> status sample_job = Pending \<and>
   map status (job_trace merge_failing_world ''/app'' ''5abc'' ''/app/uploads/a.rar'' sample_jobs) =
     [Pending, Processing, Processing, Processing, Processing, Failed] \<and>
   (\<exists>n fin. 1 \<le> n \<and> (fin = Completed \<or> fin = Failed) \<and>
      map status (job_trace merge_failing_world ''/app'' ''5abc'' ''/app/uploads/a.rar''
        sample_jobs) = Pending # replicate n Processing @ [fin])"
proof -
  have h1: "getJob sample_jobs ''5abc'' = Some sample_job" by code_simp
  have h2: "status sample_job = Pending" by code_simp
  have v: "map status (job_trace merge_failing_world ''/app'' ''5abc'' ''/app/uploads/a.rar''
      sample_jobs) = [Pending, Processing, Processing, Processing, Processing, Failed]"
    by code_simp
  from status_order [OF h1 h2, of merge_failing_world "''/app''" "''/app/uploads/a.rar''"] h1 h2 v
  show ?thesis by blast
qed

section \<open>Progress\<close>

text \<open>
  Claim C5. Within one run on a job created with progress 0, the progress seen at the
  successive observable points never decreases, stays between 0 and 100, and runs through
  0, 10, 30, 40, 70, 100, cut where the run fails.
\<close>

theorem progress_monotone:
  assumes "getJob jobs jobId = Some job" and "progress job = 0"
  shows "sorted (map progress (job_trace w cwd jobId ap jobs)) \<and>
         (\<forall>p \<in> set (map progress (job_trace w cwd jobId ap jobs)). 0 \<le> p \<and> p \<le> 100) \<and>
         prefix (remdups_adj (map progress (job_trace w cwd jobId ap jobs)))
           [0, 10, 30, 40, 70, 100]"
  using assms
  by (cases rule: run_cases [of w cwd jobId ap])
     (simp_all add: job_trace_history object_assign_def update_defs)

theorem progress_monotone_witness:
  "getJob sample_jobs ''5abc'' = Some sample_job \<and> progress sample_job = 0 \<and>
   map progress (job_trace merge_failing_world ''/app'' ''5abc'' ''/app/uploads/a.rar''
     sample_jobs) = [0, 10, 30, 40, 70, 70] \<and>
   sorted (map progress (job_trace merge_failing_world ''/app'' ''5abc'' ''/app/uploads/a.rar''
     sample_jobs))"
proof -
  have h1: "getJob sample_jobs ''5abc'' = Some sample_job" by code_simp
  have h2: "progress sample_job = 0" by code_simp
  have v: "map progress (job_trace merge_failing_world ''/app'' ''5abc'' ''/app/uploads/a.rar''
      sample_jobs) = [0, 10, 30, 40, 70, 70]"
    by code_simp
  from progress_monotone [OF h1 h2, of merge_failing_world "''/app''" "''/app/uploads/a.rar''"]
    h1 h2 v
  show ?thesis by blast
qed

section \<open>What a run leaves in the registry\<close>

lemma job_history_nonempty: "job_history job us \<noteq> []"
  by (cases us) auto

lemma getJob_foldl_updateJob:
  "getJob (foldl (\<lambda>r u. updateJob r jobId u) jobs us) jobId =
     map_option (\<lambda>j. last (job_history j us)) (getJob jobs jobId)"
  by (induction us arbitrary: jobs)
     (simp_all add: getJob_updateJob job_history_nonempty option.map_comp comp_def option.map_ident)

text \<open>The last observable point of a run is the registry that the run returns.\<close>

lemma last_processArchive_trace:
  "last (processArchive_trace w cwd jobId ap jobs) = snd (processArchive w cwd jobId ap jobs)"
  by (simp add: processArchive_trace_def last_snapshots processArchive_unfold)

lemma getJob_processArchive:
  "getJob jobs jobId = Some job \<Longrightarrow>
   getJob (snd (processArchive w cwd jobId ap jobs)) jobId =
     Some (last (job_trace w cwd jobId ap jobs))"
  by (simp add: processArchive_unfold getJob_foldl_updateJob job_trace_history)

lemma processArchive_result:
  "fst (processArchive w cwd jobId ap jobs) =
     (case snd (try_block_updates w cwd jobId ap) of None \<Rightarrow> Inr () | Some e \<Rightarrow> Inl e)"
  by (simp add: processArchive_unfold)

section \<open>Failure leaves the rest of the record alone\<close>

text \<open>
  Claim C10. When a run fails, the job the registry holds afterwards is the job as it
  stood before the failure update with only status and error changed: progress keeps the
  value of the last stage that succeeded, and input files, kind and creation time are
  those the job had before the run. A job without an output file before the run has none
  after a failed run.
\<close>

theorem failure_frame:
  assumes "getJob jobs jobId = Some job" and "fst (processArchive w cwd jobId ap jobs) = Inl e"
  shows "getJob (snd (processArchive w cwd jobId ap jobs)) jobId =
           Some (last (job_trace w cwd jobId ap jobs)) \<and>
         last (job_trace w cwd jobId ap jobs) =
           (last (butlast (job_trace w cwd jobId ap jobs)))
             \<lparr>status := Failed, error := Some (error_message e)\<rparr> \<and>
         3 \<le> length (job_trace w cwd jobId ap jobs) \<and>
         progress (last (job_trace w cwd jobId ap jobs)) =
           progress (last (butlast (job_trace w cwd jobId ap jobs))) \<and>
         inputFiles (last (job_trace w cwd jobId ap jobs)) = inputFiles job \<and>
         job_kind (last (job_trace w cwd jobId ap jobs)) = job_kind job \<and>
         createdAt (last (job_trace w cwd jobId ap jobs)) = createdAt job \<and>
         (outputFile job = None \<longrightarrow> outputFile (last (job_trace w cwd jobId ap jobs)) = None)"
proof (cases rule: run_cases [of w cwd jobId ap])
  case (extract_failed e')
  with assms(2) have "e' = e" by (simp add: processArchive_result)
  with assms(1) extract_failed(2) show ?thesis
    by (simp add: getJob_processArchive job_trace_history object_assign_def update_defs)
next
  case (discover_failed e')
  with assms(2) have "e' = e" by (simp add: processArchive_result)
  with assms(1) discover_failed(2) show ?thesis
    by (simp add: getJob_processArchive job_trace_history object_assign_def update_defs)
next
  case (convert_failed e')
  with assms(2) have "e' = e" by (simp add: processArchive_result)
  with assms(1) convert_failed(2) show ?thesis
    by (simp add: getJob_processArchive job_trace_history object_assign_def update_defs)
next
  case (merge_failed e')
  with assms(2) have "e' = e" by (simp add: processArchive_result)
  with assms(1) merge_failed(2) show ?thesis
    by (simp add: getJob_processArchive job_trace_history object_assign_def update_defs)
next
  case succeeded
  with assms(2) show ?thesis by (simp add: processArchive_result)
qed

theorem failure_frame_witness:
  "getJob sample_jobs ''5abc'' = Some sample_job \<and>
   fst (processArchive merge_failing_world ''/app'' ''5abc'' ''/app/uploads/a.rar'' sample_jobs) =
     Inl (Error ''PDF merge failed: no pages'') \<and>
   outputFile sample_job = None \<and>
   getJob (snd (processArchive merge_failing_world ''/app'' ''5abc'' ''/app/uploads/a.rar''
     sample_jobs)) ''5abc'' =
     Some (sample_job\<lparr>status := Failed, progress := 70,
       error := Some ''PDF merge failed: no pages'',
       steps := Some \<lparr>extract_step = True, convert_step = True, merge_step = False\<rparr>\<rparr>) \<and>
   progress (last (job_trace merge_failing_world ''/app'' ''5abc'' ''/app/uploads/a.rar''
     sample_jobs)) = 70 \<and>
   outputFile (last (job_trace merge_failing_world ''/app'' ''5abc'' ''/app/uploads/a.rar''
     sample_jobs)) = None"
proof -
  have h1: "getJob sample_jobs ''5abc'' = Some sample_job" by code_simp
  have h2: "fst (processArchive merge_failing_world ''/app'' ''5abc'' ''/app/uploads/a.rar''
      sample_jobs) = Inl (Error ''PDF merge failed: no pages'')"
    by code_simp
  have h3: "outputFile sample_job = None" by code_simp
  have v: "last (job_trace merge_failing_world ''/app'' ''5abc'' ''/app/uploads/a.rar''
      sample_jobs) =
    sample_job\<lparr>status := Failed, progress := 70,
       error := Some ''PDF merge failed: no pages'',
       steps := Some \<lparr>extract_step = True, convert_step = True, merge_step = False\<rparr>\<rparr>"
    by code_simp
  from failure_frame [OF h1 h2] h3
  have "getJob (snd (processArchive merge_failing_world ''/app'' ''5abc'' ''/app/uploads/a.rar''
          sample_jobs)) ''5abc'' =
        Some (last (job_trace merge_failing_world ''/app'' ''5abc'' ''/app/uploads/a.rar''
          sample_jobs))"
    and "outputFile (last (job_trace merge_failing_world ''/app'' ''5abc''
          ''/app/uploads/a.rar'' sample_jobs)) = None"
    by blast+
  with h1 h2 h3 v show ?thesis by simp
qed

section \<open>Every run ends completed or failed\<close>

lemma error_message_Error: "error_message (Error m) = m"
  by (simp add: error_message_def)

lemma error_message_nonempty: "x \<noteq> Error [] \<Longrightarrow> error_message x \<noteq> []"
  by (cases x) (simp_all add: error_message_def)

lemma mkdir_message:
  "external_messages_nonempty w \<Longrightarrow> mkdir w p = Some e \<Longrightarrow> error_message e \<noteq> []"
  by (rule error_message_nonempty) (auto simp: external_messages_nonempty_def)

lemma extract_zip_message:
  "external_messages_nonempty w \<Longrightarrow> extract_zip w a d = Some e \<Longrightarrow> error_message e \<noteq> []"
  by (rule error_message_nonempty) (auto simp: external_messages_nonempty_def)

lemma spawn_message:
  "external_messages_nonempty w \<Longrightarrow> spawn w c args = SpawnThrows e \<Longrightarrow> error_message e \<noteq> []"
  by (rule error_message_nonempty) (auto simp: external_messages_nonempty_def)

lemma readdir_message:
  "external_messages_nonempty w \<Longrightarrow> readdir w p = Inl e \<Longrightarrow> error_message e \<noteq> []"
  by (rule error_message_nonempty) (auto simp: external_messages_nonempty_def)

lemma extractArchive_message:
  assumes "external_messages_nonempty w" and "extractArchive w a d = Some e"
  shows "error_message e \<noteq> []"
  using assms(2)
  unfolding extractArchive_def Let_def
  by (auto split: option.splits if_splits spawn_result.splits child.splits
      simp: error_message_Error
      dest: mkdir_message [OF assms(1)] extract_zip_message [OF assms(1)]
        spawn_message [OF assms(1)])

lemma run_python_message:
  "run_python w args failure = Some e \<Longrightarrow> failure \<noteq> [] \<Longrightarrow> error_message e \<noteq> []"
  by (auto simp: run_python_def error_message_def split: option.splits child.splits if_splits)

lemma findHtmlFiles_message:
  assumes "external_messages_nonempty w" and "findHtmlFiles w d = Inl e"
  shows "error_message e \<noteq> []"
  using assms(2)
  by (auto simp: findHtmlFiles_def split: sum.splits dest: readdir_message [OF assms(1)])

lemma try_block_message:
  assumes "external_messages_nonempty w" and "snd (try_block_updates w cwd jobId ap) = Some e"
  shows "error_message e \<noteq> []"
  using assms(2)
  unfolding try_block_updates_def Let_def convertHtmlToPdf_def mergePdfs_def
  by (auto split: option.splits sum.splits if_splits simp: error_message_Error
      dest: extractArchive_message [OF assms(1)] findHtmlFiles_message [OF assms(1)]
        run_python_message mkdir_message [OF assms(1)])

lemma run_failed_with_iff:
  assumes "getJob jobs jobId = Some job"
  shows "run_failed_with w cwd jobId ap jobs e = (snd (try_block_updates w cwd jobId ap) = Some e)"
  using assms
  by (cases rule: run_cases [of w cwd jobId ap])
     (auto simp: run_failed_with_def processArchive_unfold getJob_updateJob object_assign_def
        update_defs)

lemma run_completed_iff:
  assumes "getJob jobs jobId = Some job"
  shows "run_completed w cwd jobId ap jobs = (snd (try_block_updates w cwd jobId ap) = None)"
  using assms
  by (cases rule: run_cases [of w cwd jobId ap])
     (auto simp: run_completed_def processArchive_unfold getJob_updateJob object_assign_def
        update_defs)

lemmas stage_dirs = extractDir_of_def pdfDir_of_def mergedPdfPath_of_def

text \<open>
  Claim C2. For a job that is in the registry, every run ends with the job completed or
  failed: a run that returns leaves it completed, and a run that throws leaves it failed,
  with the message of the thrown error recorded in the registry that the caller finds
  when the exception reaches it. Every stage failure ends the run so: when extraction,
  discovery (an error while reading, or no document found), the creation of the PDF
  directory, conversion or merging fails, the stages before it having succeeded, the run
  throws that failure to the caller and leaves the job failed with its message; when all
  succeed the run returns and the job is completed. The message is non-empty: the
  orchestrator's own messages always are, and those of the file system, the unzip
  library and \<open>spawn\<close> are whenever these collaborators give their errors a message.
\<close>

theorem processArchive_terminal:
  assumes "getJob jobs jobId = Some job"
  shows "(case processArchive w cwd jobId ap jobs of
            (Inr u, jobs') \<Rightarrow> map_option status (getJob jobs' jobId) = Some Completed
          | (Inl e, jobs') \<Rightarrow>
              map_option status (getJob jobs' jobId) = Some Failed \<and>
              map_option error (getJob jobs' jobId) = Some (Some (error_message e)) \<and>
              (external_messages_nonempty w \<longrightarrow> error_message e \<noteq> [])) \<and>
         (\<forall>e. extractArchive w ap (extractDir_of cwd jobId) = Some e \<longrightarrow>
              run_failed_with w cwd jobId ap jobs e) \<and>
         (extractArchive w ap (extractDir_of cwd jobId) = None \<longrightarrow>
            (\<forall>e. findHtmlFiles w (extractDir_of cwd jobId) = Inl e \<longrightarrow>
                 run_failed_with w cwd jobId ap jobs e) \<and>
            (findHtmlFiles w (extractDir_of cwd jobId) = Inr [] \<longrightarrow>
                 run_failed_with w cwd jobId ap jobs
                   (Error ''No HTML files found in the archive'')) \<and>
            (\<forall>htmlFiles. findHtmlFiles w (extractDir_of cwd jobId) = Inr htmlFiles \<and>
                 htmlFiles \<noteq> [] \<longrightarrow>
               (\<forall>e. mkdir w (pdfDir_of cwd jobId) = Some e \<longrightarrow>
                    run_failed_with w cwd jobId ap jobs e) \<and>
               (mkdir w (pdfDir_of cwd jobId) = None \<longrightarrow>
                  (\<forall>e. convertHtmlToPdf w cwd (extractDir_of cwd jobId) (pdfDir_of cwd jobId) =
                         Some e \<longrightarrow>
                       run_failed_with w cwd jobId ap jobs e) \<and>
                  (convertHtmlToPdf w cwd (extractDir_of cwd jobId) (pdfDir_of cwd jobId) =
                     None \<longrightarrow>
                     (\<forall>e. mergePdfs w cwd (pdfDir_of cwd jobId) (mergedPdfPath_of cwd jobId) =
                            Some e \<longrightarrow>
                          run_failed_with w cwd jobId ap jobs e) \<and>
                     (mergePdfs w cwd (pdfDir_of cwd jobId) (mergedPdfPath_of cwd jobId) =
                        None \<longrightarrow>
                          run_completed w cwd jobId ap jobs)))))"
proof (intro conjI)
  show "case processArchive w cwd jobId ap jobs of
            (Inr u, jobs') \<Rightarrow> map_option status (getJob jobs' jobId) = Some Completed
          | (Inl e, jobs') \<Rightarrow>
              map_option status (getJob jobs' jobId) = Some Failed \<and>
              map_option error (getJob jobs' jobId) = Some (Some (error_message e)) \<and>
              (external_messages_nonempty w \<longrightarrow> error_message e \<noteq> [])"
  proof (cases rule: run_cases [of w cwd jobId ap])
    case (extract_failed e)
    then have "snd (try_block_updates w cwd jobId ap) = Some e" by simp
    with extract_failed assms show ?thesis
      using try_block_message [of w cwd jobId ap e]
      by (simp add: processArchive_unfold getJob_updateJob object_assign_def update_defs)
  next
    case (discover_failed e)
    then have "snd (try_block_updates w cwd jobId ap) = Some e" by simp
    with discover_failed assms show ?thesis
      using try_block_message [of w cwd jobId ap e]
      by (simp add: processArchive_unfold getJob_updateJob object_assign_def update_defs)
  next
    case (convert_failed e)
    then have "snd (try_block_updates w cwd jobId ap) = Some e" by simp
    with convert_failed assms show ?thesis
      using try_block_message [of w cwd jobId ap e]
      by (simp add: processArchive_unfold getJob_updateJob object_assign_def update_defs)
  next
    case (merge_failed e)
    then have "snd (try_block_updates w cwd jobId ap) = Some e" by simp
    with merge_failed assms show ?thesis
      using try_block_message [of w cwd jobId ap e]
      by (simp add: processArchive_unfold getJob_updateJob object_assign_def update_defs)
  next
    case succeeded
    with assms show ?thesis
      by (simp add: processArchive_unfold getJob_updateJob object_assign_def update_defs)
  qed
next
  show "\<forall>e. extractArchive w ap (extractDir_of cwd jobId) = Some e \<longrightarrow>
              run_failed_with w cwd jobId ap jobs e"
    by (simp add: run_failed_with_iff [OF assms] try_block_updates_def stage_dirs)
next
  show "extractArchive w ap (extractDir_of cwd jobId) = None \<longrightarrow>
            (\<forall>e. findHtmlFiles w (extractDir_of cwd jobId) = Inl e \<longrightarrow>
                 run_failed_with w cwd jobId ap jobs e) \<and>
            (findHtmlFiles w (extractDir_of cwd jobId) = Inr [] \<longrightarrow>
                 run_failed_with w cwd jobId ap jobs
                   (Error ''No HTML files found in the archive'')) \<and>
            (\<forall>htmlFiles. findHtmlFiles w (extractDir_of cwd jobId) = Inr htmlFiles \<and>
                 htmlFiles \<noteq> [] \<longrightarrow>
               (\<forall>e. mkdir w (pdfDir_of cwd jobId) = Some e \<longrightarrow>
                    run_failed_with w cwd jobId ap jobs e) \<and>
               (mkdir w (pdfDir_of cwd jobId) = None \<longrightarrow>
                  (\<forall>e. convertHtmlToPdf w cwd (extractDir_of cwd jobId) (pdfDir_of cwd jobId) =
                         Some e \<longrightarrow>
                       run_failed_with w cwd jobId ap jobs e) \<and>
                  (convertHtmlToPdf w cwd (extractDir_of cwd jobId) (pdfDir_of cwd jobId) =
                     None \<longrightarrow>
                     (\<forall>e. mergePdfs w cwd (pdfDir_of cwd jobId) (mergedPdfPath_of cwd jobId) =
                            Some e \<longrightarrow>
                          run_failed_with w cwd jobId ap jobs e) \<and>
                     (mergePdfs w cwd (pdfDir_of cwd jobId) (mergedPdfPath_of cwd jobId) =
                        None \<longrightarrow>
                          run_completed w cwd jobId ap jobs))))"
    by (simp add: run_failed_with_iff [OF assms] run_completed_iff [OF assms]
        try_block_updates_def stage_dirs Let_def)
qed

theorem processArchive_terminal_witness:
  "getJob sample_jobs ''5abc'' = Some sample_job \<and>
   external_messages_nonempty merge_failing_world \<and>
   extractArchive merge_failing_world ''/app/uploads/a.rar'' (extractDir_of ''/app'' ''5abc'') =
     None \<and>
   findHtmlFiles merge_failing_world (extractDir_of ''/app'' ''5abc'') =
     Inr [''/app/uploads/extracted_5abc/b.HTML'', ''/app/uploads/extracted_5abc/sub/a.htm''] \<and>
   mkdir merge_failing_world (pdfDir_of ''/app'' ''5abc'') = None \<and>
   convertHtmlToPdf merge_failing_world ''/app'' (extractDir_of ''/app'' ''5abc'')
     (pdfDir_of ''/app'' ''5abc'') = None \<and>
   mergePdfs merge_failing_world ''/app'' (pdfDir_of ''/app'' ''5abc'')
     (mergedPdfPath_of ''/app'' ''5abc'') = Some (Error ''PDF merge failed: no pages'') \<and>
   fst (processArchive merge_failing_world ''/app'' ''5abc'' ''/app/uploads/a.rar'' sample_jobs) =
     Inl (Error ''PDF merge failed: no pages'') \<and>
   map_option status (getJob (snd (processArchive merge_failing_world ''/app'' ''5abc''
     ''/app/uploads/a.rar'' sample_jobs)) ''5abc'') = Some Failed \<and>
   map_option error (getJob (snd (processArchive merge_failing_world ''/app'' ''5abc''
     ''/app/uploads/a.rar'' sample_jobs)) ''5abc'') = Some (Some ''PDF merge failed: no pages'')"
proof -
  have h1: "getJob sample_jobs ''5abc'' = Some sample_job" by code_simp
  have h2: "external_messages_nonempty merge_failing_world"
    by (simp add: external_messages_nonempty_def merge_failing_world_def sample_world_def)
  have x: "extractArchive merge_failing_world ''/app/uploads/a.rar''
      (extractDir_of ''/app'' ''5abc'') = None"
    by code_simp
  have f: "findHtmlFiles merge_failing_world (extractDir_of ''/app'' ''5abc'') =
     Inr [''/app/uploads/extracted_5abc/b.HTML'', ''/app/uploads/extracted_5abc/sub/a.htm'']"
    by code_simp
  have n: "[''/app/uploads/extracted_5abc/b.HTML'', ''/app/uploads/extracted_5abc/sub/a.htm''] \<noteq> []"
    by simp
  have m: "mkdir merge_failing_world (pdfDir_of ''/app'' ''5abc'') = None"
    by (simp add: merge_failing_world_def sample_world_def)
  have c: "convertHtmlToPdf merge_failing_world ''/app'' (extractDir_of ''/app'' ''5abc'')
     (pdfDir_of ''/app'' ''5abc'') = None"
    by code_simp
  have g: "mergePdfs merge_failing_world ''/app'' (pdfDir_of ''/app'' ''5abc'')
     (mergedPdfPath_of ''/app'' ''5abc'') = Some (Error ''PDF merge failed: no pages'')"
    by code_simp
  from processArchive_terminal [OF h1, of merge_failing_world "''/app''" "''/app/uploads/a.rar''"]
    x f n m c g
  have "run_failed_with merge_failing_world ''/app'' ''5abc'' ''/app/uploads/a.rar'' sample_jobs
      (Error ''PDF merge failed: no pages'')"
    by blast
  then have "fst (processArchive merge_failing_world ''/app'' ''5abc'' ''/app/uploads/a.rar''
          sample_jobs) = Inl (Error ''PDF merge failed: no pages'') \<and>
        map_option status (getJob (snd (processArchive merge_failing_world ''/app'' ''5abc''
          ''/app/uploads/a.rar'' sample_jobs)) ''5abc'') = Some Failed \<and>
        map_option error (getJob (snd (processArchive merge_failing_world ''/app'' ''5abc''
          ''/app/uploads/a.rar'' sample_jobs)) ''5abc'') =
          Some (Some ''PDF merge failed: no pages'')"
    by (simp add: run_failed_with_def error_message_Error)
  with h1 h2 x f m c g show ?thesis by blast
qed

section \<open>Steps\<close>

text \<open>
  Claim C6, as stated, fails: \<open>processArchive\<close> writes \<open>steps\<close> whatever the kind of the
  job. A job created with kind convert has no steps; run on a RAR archive that \<open>unrar\<close>
  extracts, it has all three once the run has completed.
\<close>

theorem steps_presence_counterexample:
  "getJob convert_jobs ''5abc'' = Some convert_job \<and>
   steps convert_job = None \<and>
   toLowerCase (extname ''/app/uploads/a.rar'') = ''.rar'' \<and>
   extractArchive sample_world ''/app/uploads/a.rar'' (extractDir_of ''/app'' ''5abc'') = None \<and>
   fst (processArchive sample_world ''/app'' ''5abc'' ''/app/uploads/a.rar'' convert_jobs) =
     Inr () \<and>
   job_kind (last (job_trace sample_world ''/app'' ''5abc'' ''/app/uploads/a.rar'' convert_jobs)) =
     Convert \<and>
   steps (last (job_trace sample_world ''/app'' ''5abc'' ''/app/uploads/a.rar'' convert_jobs)) =
     Some \<lparr>extract_step = True, convert_step = True, merge_step = True\<rparr>"
  by code_simp

text \<open>
  Claim C6, amended. A job is created with steps exactly when its kind is full-process.
  Over a run on a job as created, a full-process job has steps at every observable point
  and a job of another kind has them from the update that follows extraction on
  (progress 30); where steps are present, merge implies convert implies extract; and from
  one observable point to any later one no flag goes back to false.
\<close>

theorem steps_discipline:
  assumes "getJob jobs jobId = Some job" and "progress job = 0"
    and "steps job =
      (if job_kind job = FullProcess
       then Some \<lparr>extract_step = False, convert_step = False, merge_step = False\<rparr> else None)"
  shows "(\<forall>j \<in> set (job_trace w cwd jobId ap jobs).
            job_kind j = job_kind job \<and>
            (job_kind j = FullProcess \<longrightarrow> steps j \<noteq> None) \<and>
            (job_kind j \<noteq> FullProcess \<longrightarrow> (steps j \<noteq> None) = (30 \<le> progress j)) \<and>
            (\<forall>s. steps j = Some s \<longrightarrow>
               (merge_step s \<longrightarrow> convert_step s) \<and> (convert_step s \<longrightarrow> extract_step s))) \<and>
         sorted_wrt steps_advance (map steps (job_trace w cwd jobId ap jobs)) \<and>
         map_option steps (getJob (snd (createJob now rnd36 date kind files others))
             (fst (createJob now rnd36 date kind files others))) =
           Some (if kind = FullProcess
                 then Some \<lparr>extract_step = False, convert_step = False, merge_step = False\<rparr>
                 else None)"
proof (intro conjI)
  show "map_option steps (getJob (snd (createJob now rnd36 date kind files others))
             (fst (createJob now rnd36 date kind files others))) =
           Some (if kind = FullProcess
                 then Some \<lparr>extract_step = False, convert_step = False, merge_step = False\<rparr>
                 else None)"
    by (simp add: getJob_createJob) (simp add: createJob_def Let_def)
next
  show "sorted_wrt steps_advance (map steps (job_trace w cwd jobId ap jobs))"
    using assms
    by (cases rule: run_cases [of w cwd jobId ap])
       (simp_all add: job_trace_history object_assign_def update_defs steps_advance_def)
next
  show "\<forall>j \<in> set (job_trace w cwd jobId ap jobs).
            job_kind j = job_kind job \<and>
            (job_kind j = FullProcess \<longrightarrow> steps j \<noteq> None) \<and>
            (job_kind j \<noteq> FullProcess \<longrightarrow> (steps j \<noteq> None) = (30 \<le> progress j)) \<and>
            (\<forall>s. steps j = Some s \<longrightarrow>
               (merge_step s \<longrightarrow> convert_step s) \<and> (convert_step s \<longrightarrow> extract_step s))"
    using assms
    by (cases rule: run_cases [of w cwd jobId ap])
       (simp_all add: job_trace_history object_assign_def update_defs)
qed

theorem steps_discipline_witness:
  "getJob convert_jobs ''5abc'' = Some convert_job \<and> progress convert_job = 0 \<and>
   steps convert_job =
      (if job_kind convert_job = FullProcess
       then Some \<lparr>extract_step = False, convert_step = False, merge_step = False\<rparr> else None) \<and>
   map steps (job_trace sample_world ''/app'' ''5abc'' ''/app/uploads/a.rar'' convert_jobs) =
     [None, None,
      Some \<lparr>extract_step = True, convert_step = False, merge_step = False\<rparr>,
      Some \<lparr>extract_step = True, convert_step = False, merge_step = False\<rparr>,
      Some \<lparr>extract_step = True, convert_step = True, merge_step = False\<rparr>,
      Some \<lparr>extract_step = True, convert_step = True, merge_step = True\<rparr>] \<and>
   sorted_wrt steps_advance
     (map steps (job_trace sample_world ''/app'' ''5abc'' ''/app/uploads/a.rar'' convert_jobs))"
proof -
  have h1: "getJob convert_jobs ''5abc'' = Some convert_job" by code_simp
  have h2: "progress convert_job = 0" by code_simp
  have h3: "steps convert_job =
      (if job_kind convert_job = FullProcess
       then Some \<lparr>extract_step = False, convert_step = False, merge_step = False\<rparr> else None)"
    by code_simp
  have v: "map steps (job_trace sample_world ''/app'' ''5abc'' ''/app/uploads/a.rar'' convert_jobs) =
     [None, None,
      Some \<lparr>extract_step = True, convert_step = False, merge_step = False\<rparr>,
      Some \<lparr>extract_step = True, convert_step = False, merge_step = False\<rparr>,
      Some \<lparr>extract_step = True, convert_step = True, merge_step = False\<rparr>,
      Some \<lparr>extract_step = True, convert_step = True, merge_step = True\<rparr>]"
    by code_simp
  from steps_discipline [OF h1 h2 h3, of sample_world "''/app''" "''/app/uploads/a.rar''"]
  have "sorted_wrt steps_advance
     (map steps (job_trace sample_world ''/app'' ''5abc'' ''/app/uploads/a.rar'' convert_jobs))"
    by blast
  with h1 h2 h3 v show ?thesis by blast
qed

section \<open>Listing the jobs\<close>

lemma mset_insert_cmp: "mset (insert_cmp c x ys) = add_mset x (mset ys)"
  by (induction ys) simp_all

lemma mset_sort_cmp: "mset (sort_cmp c xs) = mset xs"
  unfolding sort_cmp_def by (induction xs) (simp_all add: mset_insert_cmp)

lemma set_insert_cmp: "set (insert_cmp c x ys) = insert x (set ys)"
  by (induction ys) auto

lemma sorted_insert_cmp:
  "sorted_wrt (\<lambda>a b. createdAt b \<le> createdAt a) ys \<Longrightarrow>
   sorted_wrt (\<lambda>a b. createdAt b \<le> createdAt a)
     (insert_cmp (\<lambda>a b. createdAt b - createdAt a) x ys)"
  by (induction ys) (auto simp: set_insert_cmp)

lemma filter_insert_cmp:
  "filter (\<lambda>j. createdAt j = t) (insert_cmp (\<lambda>a b. createdAt b - createdAt a) x ys) =
     (if createdAt x = t then x # filter (\<lambda>j. createdAt j = t) ys
      else filter (\<lambda>j. createdAt j = t) ys)"
  by (induction ys) auto

text \<open>
  Claim C7. \<open>getAllJobs\<close> returns the records of the registry, all of them and each as
  often as the registry holds it, most recent creation first; records created at the
  same time keep the order in which the registry holds them.
\<close>

theorem getAllJobs_sorted:
  "mset (getAllJobs jobs) = mset (map_values jobs) \<and>
   sorted_wrt (\<lambda>a b. createdAt b \<le> createdAt a) (getAllJobs jobs) \<and>
   (\<forall>t. filter (\<lambda>j. createdAt j = t) (getAllJobs jobs) =
        filter (\<lambda>j. createdAt j = t) (map_values jobs))"
proof (intro conjI allI)
  show "mset (getAllJobs jobs) = mset (map_values jobs)"
    by (simp add: getAllJobs_def mset_sort_cmp)
next
  have "sorted_wrt (\<lambda>a b. createdAt b \<le> createdAt a)
          (foldr (insert_cmp (\<lambda>a b. createdAt b - createdAt a)) xs [])" for xs
    by (induction xs) (simp_all add: sorted_insert_cmp)
  then show "sorted_wrt (\<lambda>a b. createdAt b \<le> createdAt a) (getAllJobs jobs)"
    by (simp add: getAllJobs_def sort_cmp_def)
next
  fix t
  have "filter (\<lambda>j. createdAt j = t)
          (foldr (insert_cmp (\<lambda>a b. createdAt b - createdAt a)) xs []) =
        filter (\<lambda>j. createdAt j = t) xs" for xs
    by (induction xs) (simp_all add: filter_insert_cmp)
  then show "filter (\<lambda>j. createdAt j = t) (getAllJobs jobs) =
        filter (\<lambda>j. createdAt j = t) (map_values jobs)"
    by (simp add: getAllJobs_def sort_cmp_def)
qed

theorem getAllJobs_sorted_witness:
  "map inputFiles (map_values three_jobs) = [[''a.zip''], [''b.zip''], [''c.zip'']] \<and>
   map createdAt (map_values three_jobs) = [5, 9, 5] \<and>
   map inputFiles (getAllJobs three_jobs) = [[''b.zip''], [''a.zip''], [''c.zip'']] \<and>
   sorted_wrt (\<lambda>a b. createdAt b \<le> createdAt a) (getAllJobs three_jobs) \<and>
   mset (getAllJobs three_jobs) = mset (map_values three_jobs)"
proof -
  have a: "map inputFiles (map_values three_jobs) = [[''a.zip''], [''b.zip''], [''c.zip'']]"
    by code_simp
  have b: "map createdAt (map_values three_jobs) = [5, 9, 5]" by code_simp
  have c: "map inputFiles (getAllJobs three_jobs) = [[''b.zip''], [''a.zip''], [''c.zip'']]"
    by code_simp
  from getAllJobs_sorted [of three_jobs] a b c show ?thesis by blast
qed

section \<open>Document discovery\<close>

lemma length_scan:
  "length (scanEntry dir e) = count_entry e"
  "length (scanDirectory dir es) = count_html es"
  by (induction dir e and dir es rule: scanEntry_scanDirectory.induct) simp_all

lemma html_file_at_mono:
  "html_file_at dir es p \<Longrightarrow> set es \<subseteq> set es' \<Longrightarrow> html_file_at dir es' p"
  by (induction arbitrary: es' rule: html_file_at.induct)
     (auto intro: html_file_at.intros)

lemma scan_sound:
  "p \<in> set (scanEntry dir e) \<Longrightarrow> html_file_at dir [e] p"
  "p \<in> set (scanDirectory dir es) \<Longrightarrow> html_file_at dir es p"
proof (induction dir e and dir es arbitrary: p and p rule: scanEntry_scanDirectory.induct)
  case (1 currentDir)
  then show ?case by simp
next
  case (2 currentDir entry entries)
  from "2.prems" consider "p \<in> set (scanEntry currentDir entry)"
    | "p \<in> set (scanDirectory currentDir entries)" by auto
  then show ?case
  proof cases
    case 1
    then have "html_file_at currentDir [entry] p" by (rule "2.IH"(1))
    then show ?thesis by (rule html_file_at_mono) simp
  next
    case 2
    then have "html_file_at currentDir entries p" by (rule "2.IH"(2))
    then show ?thesis by (rule html_file_at_mono) auto
  qed
next
  case (3 currentDir name sub)
  then have "html_file_at (path_join [currentDir, name]) sub p" by simp
  then show ?case by (rule html_file_at.below [rotated]) simp
next
  case (4 currentDir name)
  then show ?case by (auto split: if_splits intro: html_file_at.here)
next
  case (5 currentDir name)
  then show ?case by simp
qed

lemma scanEntry_subset:
  "e \<in> set es \<Longrightarrow> set (scanEntry dir e) \<subseteq> set (scanDirectory dir es)"
  by (induction es) auto

lemma scan_complete:
  "html_file_at dir es p \<Longrightarrow> p \<in> set (scanDirectory dir es)"
proof (induction rule: html_file_at.induct)
  case (here name entries dir)
  then show ?case using scanEntry_subset [of "File name" entries dir] by auto
next
  case (below name sub entries dir p)
  then show ?case using scanEntry_subset [of "Dir name sub" entries dir] by auto
qed

lemma try_block_no_html:
  assumes "extractArchive w ap (path_join [uploadDir cwd, ''extracted_'' @ jobId]) = None"
    and "findHtmlFiles w (path_join [uploadDir cwd, ''extracted_'' @ jobId]) = Inr []"
  shows "try_block_updates w cwd jobId ap =
           ([update_processing, update_extracted],
            Some (Error ''No HTML files found in the archive''))"
  using assms by (simp add: try_block_updates_def)

text \<open>
  Claim C9. Where the extraction directory can be read, discovery returns the full paths
  of the regular files of the tree whose name ends in \<open>.html\<close> or \<open>.htm\<close>, whatever the
  case of the letters: as many paths as there are such files, in lexicographic order.
  When there is none, and extraction has succeeded, the run of a job in the registry
  throws "No HTML files found in the archive" and leaves the job failed with that
  message.
\<close>

theorem findHtmlFiles_complete:
  assumes "readdir w dir = Inr entries"
  shows "\<exists>fs. findHtmlFiles w dir = Inr fs \<and> sorted fs \<and> length fs = count_html entries \<and>
           set fs = {p. html_file_at dir entries p} \<and>
           (count_html entries = 0 \<and> dir = path_join [uploadDir cwd, ''extracted_'' @ jobId] \<and>
            extractArchive w ap dir = None \<and> getJob jobs jobId = Some job \<longrightarrow>
              fst (processArchive w cwd jobId ap jobs) =
                Inl (Error ''No HTML files found in the archive'') \<and>
              map_option status (getJob (snd (processArchive w cwd jobId ap jobs)) jobId) =
                Some Failed \<and>
              map_option error (getJob (snd (processArchive w cwd jobId ap jobs)) jobId) =
                Some (Some ''No HTML files found in the archive''))"
proof -
  let ?fs = "sort (scanDirectory dir entries)"
  have f: "findHtmlFiles w dir = Inr ?fs" using assms by (simp add: findHtmlFiles_def)
  have l: "length ?fs = count_html entries" by (simp add: length_scan)
  have s: "set ?fs = {p. html_file_at dir entries p}"
    using scan_sound(2) scan_complete by auto
  have z0: "fst (processArchive w cwd jobId ap jobs) =
             Inl (Error ''No HTML files found in the archive'') \<and>
           map_option status (getJob (snd (processArchive w cwd jobId ap jobs)) jobId) =
             Some Failed \<and>
           map_option error (getJob (snd (processArchive w cwd jobId ap jobs)) jobId) =
             Some (Some ''No HTML files found in the archive'')"
    if "count_html entries = 0" and d: "dir = path_join [uploadDir cwd, ''extracted_'' @ jobId]"
      and x: "extractArchive w ap dir = None" and g: "getJob jobs jobId = Some job"
  proof -
    from that(1) l have "?fs = []" by simp
    with f have "findHtmlFiles w dir = Inr []" by simp
    with x d have "try_block_updates w cwd jobId ap =
           ([update_processing, update_extracted],
            Some (Error ''No HTML files found in the archive''))"
      by (simp add: try_block_no_html)
    with g show ?thesis
      by (simp add: processArchive_unfold processArchive_updates_def getJob_updateJob
          object_assign_def update_defs error_message_Error)
  qed
  then have z: "count_html entries = 0 \<and>
            dir = path_join [uploadDir cwd, ''extracted_'' @ jobId] \<and>
            extractArchive w ap dir = None \<and> getJob jobs jobId = Some job \<longrightarrow>
              fst (processArchive w cwd jobId ap jobs) =
                Inl (Error ''No HTML files found in the archive'') \<and>
              map_option status (getJob (snd (processArchive w cwd jobId ap jobs)) jobId) =
                Some Failed \<and>
              map_option error (getJob (snd (processArchive w cwd jobId ap jobs)) jobId) =
                Some (Some ''No HTML files found in the archive'')"
    by blast
  have so: "sorted ?fs" by simp
  from f so l s z show ?thesis by blast
qed

theorem findHtmlFiles_complete_witness:
  "readdir sample_world ''/app/uploads/extracted_5abc'' = Inr sample_tree \<and>
   findHtmlFiles sample_world ''/app/uploads/extracted_5abc'' =
     Inr [''/app/uploads/extracted_5abc/b.HTML'', ''/app/uploads/extracted_5abc/sub/a.htm''] \<and>
   count_html sample_tree = 2 \<and>
   readdir no_html_world ''/app/uploads/extracted_5abc'' = Inr [File ''readme.md'', Dir ''empty'' []] \<and>
   count_html [File ''readme.md'', Dir ''empty'' []] = 0 \<and>
   ''/app/uploads/extracted_5abc'' = path_join [uploadDir ''/app'', ''extracted_'' @ ''5abc''] \<and>
   extractArchive no_html_world ''/app/uploads/a.rar'' ''/app/uploads/extracted_5abc'' = None \<and>
   getJob sample_jobs ''5abc'' = Some sample_job \<and>
   fst (processArchive no_html_world ''/app'' ''5abc'' ''/app/uploads/a.rar'' sample_jobs) =
     Inl (Error ''No HTML files found in the archive'') \<and>
   map_option status (getJob (snd (processArchive no_html_world ''/app'' ''5abc''
     ''/app/uploads/a.rar'' sample_jobs)) ''5abc'') = Some Failed"
proof -
  have r1: "readdir sample_world ''/app/uploads/extracted_5abc'' = Inr sample_tree"
    by (simp add: sample_world_def)
  have f1: "findHtmlFiles sample_world ''/app/uploads/extracted_5abc'' =
     Inr [''/app/uploads/extracted_5abc/b.HTML'', ''/app/uploads/extracted_5abc/sub/a.htm'']"
    by code_simp
  have c1: "count_html sample_tree = 2" by code_simp
  have r2: "readdir no_html_world ''/app/uploads/extracted_5abc'' =
      Inr [File ''readme.md'', Dir ''empty'' []]"
    by (simp add: no_html_world_def sample_world_def)
  have c2: "count_html [File ''readme.md'', Dir ''empty'' []] = 0" by code_simp
  have d: "''/app/uploads/extracted_5abc'' = path_join [uploadDir ''/app'', ''extracted_'' @ ''5abc'']"
    by code_simp
  have x: "extractArchive no_html_world ''/app/uploads/a.rar'' ''/app/uploads/extracted_5abc'' = None"
    by code_simp
  have g: "getJob sample_jobs ''5abc'' = Some sample_job" by code_simp
  from findHtmlFiles_complete [OF r2, of "''/app''" "''5abc''" "''/app/uploads/a.rar''" sample_jobs sample_job]
    c2 d x g
  have "fst (processArchive no_html_world ''/app'' ''5abc'' ''/app/uploads/a.rar'' sample_jobs) =
     Inl (Error ''No HTML files found in the archive'') \<and>
   map_option status (getJob (snd (processArchive no_html_world ''/app'' ''5abc''
     ''/app/uploads/a.rar'' sample_jobs)) ''5abc'') = Some Failed"
    by blast
  with r1 f1 c1 r2 c2 d x g show ?thesis by blast
qed

section \<open>Job ids\<close>

lemma digit_char_inj: "a < 10 \<Longrightarrow> b < 10 \<Longrightarrow> digit_char a = digit_char b \<Longrightarrow> a = b"
proof -
  assume a: "a < 10" and b: "b < 10" and e: "digit_char a = digit_char b"
  from e have "(of_char (digit_char a) :: nat) = of_char (digit_char b)" by simp
  with a b show "a = b" by (simp add: digit_char_def)
qed

lemma nat_toString_nonempty: "nat_toString n \<noteq> []"
  by (subst nat_toString.simps) simp

lemma nat_toString_inj: "nat_toString n = nat_toString m \<Longrightarrow> n = m"
proof (induction n arbitrary: m rule: nat_toString.induct)
  case (1 n)
  show ?case
  proof (cases "n < 10")
    case n: True
    show ?thesis
    proof (cases "m < 10")
      case True
      with n "1.prems" have "digit_char n = digit_char m"
        by (simp add: nat_toString.simps [of n] nat_toString.simps [of m])
      with n True show ?thesis by (intro digit_char_inj)
    next
      case False
      with n "1.prems" show ?thesis
        using nat_toString_nonempty [of "m div 10"]
        by (simp add: nat_toString.simps [of n] nat_toString.simps [of m])
    qed
  next
    case n: False
    show ?thesis
    proof (cases "m < 10")
      case True
      with n "1.prems" show ?thesis
        using nat_toString_nonempty [of "n div 10"]
        by (simp add: nat_toString.simps [of n] nat_toString.simps [of m])
    next
      case False
      with n "1.prems" have "nat_toString (n div 10) = nat_toString (m div 10)"
        and d: "digit_char (n mod 10) = digit_char (m mod 10)"
        by (simp_all add: nat_toString.simps [of n] nat_toString.simps [of m])
      with n "1.IH" have "n div 10 = m div 10" by simp
      moreover from d have "n mod 10 = m mod 10" by (intro digit_char_inj) simp_all
      ultimately show ?thesis by (metis div_mult_mod_eq)
    qed
  qed
qed

text \<open>
  Claim C8, as stated, fails: \<open>createJob\<close> does not look at the registry, and two calls
  in the same millisecond that draw the same random number return the same id; the
  second job then replaces the first in the registry.
\<close>

theorem createJob_collision_counterexample:
  "fst (createJob 1700000000000 ''0.abc'' 1700000000000 FullProcess [''b.zip'']
         (snd (createJob 1700000000000 ''0.abc'' 1700000000000 FullProcess [''a.zip''] []))) =
   fst (createJob 1700000000000 ''0.abc'' 1700000000000 FullProcess [''a.zip''] []) \<and>
   map inputFiles (map_values
     (snd (createJob 1700000000000 ''0.abc'' 1700000000000 FullProcess [''b.zip'']
         (snd (createJob 1700000000000 ''0.abc'' 1700000000000 FullProcess [''a.zip''] []))))) =
     [[''b.zip'']]"
  by (simp add: createJob_def Let_def map_values_def)

text \<open>
  Claim C8, amended. The id is the decimal text of \<open>Date.now()\<close> followed by at most
  nine characters of the base-36 text of \<open>Math.random()\<close>. Two calls in the same
  millisecond return distinct ids exactly when these random suffixes differ; two calls
  whose timestamps have the same number of digits return distinct ids exactly when the
  timestamps or the suffixes differ. The new record is stored under the id, whether or
  not the registry held that id, and no record under another id changes.
\<close>

theorem createJob_id:
  "fst (createJob now rnd36 date kind files jobs) = nat_toString now @ take 9 (drop 2 rnd36) \<and>
   ((fst (createJob now r1 d1 k1 f1 j1) = fst (createJob now r2 d2 k2 f2 j2)) =
      (take 9 (drop 2 r1) = take 9 (drop 2 r2))) \<and>
   (length (nat_toString n1) = length (nat_toString n2) \<longrightarrow>
      (fst (createJob n1 r1 d1 k1 f1 j1) = fst (createJob n2 r2 d2 k2 f2 j2)) =
        (n1 = n2 \<and> take 9 (drop 2 r1) = take 9 (drop 2 r2))) \<and>
   map_option inputFiles (getJob (snd (createJob now rnd36 date kind files jobs))
        (fst (createJob now rnd36 date kind files jobs))) = Some files \<and>
   (\<forall>k. k \<noteq> fst (createJob now rnd36 date kind files jobs) \<longrightarrow>
        getJob (snd (createJob now rnd36 date kind files jobs)) k = getJob jobs k)"
proof (intro conjI impI allI)
  show "fst (createJob now rnd36 date kind files jobs) = nat_toString now @ take 9 (drop 2 rnd36)"
    by (simp add: createJob_def new_jobId_def substr_2_9_def Let_def)
next
  show "(fst (createJob now r1 d1 k1 f1 j1) = fst (createJob now r2 d2 k2 f2 j2)) =
      (take 9 (drop 2 r1) = take 9 (drop 2 r2))"
    by (simp add: createJob_def new_jobId_def substr_2_9_def Let_def)
next
  assume "length (nat_toString n1) = length (nat_toString n2)"
  then show "(fst (createJob n1 r1 d1 k1 f1 j1) = fst (createJob n2 r2 d2 k2 f2 j2)) =
        (n1 = n2 \<and> take 9 (drop 2 r1) = take 9 (drop 2 r2))"
    by (auto simp: createJob_def new_jobId_def substr_2_9_def Let_def dest: nat_toString_inj)
next
  show "map_option inputFiles (getJob (snd (createJob now rnd36 date kind files jobs))
        (fst (createJob now rnd36 date kind files jobs))) = Some files"
    by (simp add: getJob_createJob) (simp add: createJob_def Let_def)
next
  fix k
  assume "k \<noteq> fst (createJob now rnd36 date kind files jobs)"
  then show "getJob (snd (createJob now rnd36 date kind files jobs)) k = getJob jobs k"
    by (simp add: getJob_createJob) (simp add: createJob_def Let_def)
qed


theorem createJob_id_witness:
  "length (nat_toString 1700000000000) = length (nat_toString 1700000000001) \<and>
   fst (createJob 1700000000000 ''0.abc'' 1 FullProcess [''a.zip''] []) = ''1700000000000abc'' \<and>
   fst (createJob 1700000000001 ''0.abc'' 1 FullProcess [''a.zip''] []) = ''1700000000001abc'' \<and>
   fst (createJob 1700000000000 ''0.abc'' 1 FullProcess [''a.zip''] []) \<noteq>
   fst (createJob 1700000000001 ''0.abc'' 1 FullProcess [''a.zip''] []) \<and>
   ''5xyz'' \<noteq> fst (createJob 1700000000000 ''0.abc'' 1 FullProcess [''a.zip''] sample_jobs) \<and>
   getJob (snd (createJob 1700000000000 ''0.abc'' 1 FullProcess [''a.zip''] sample_jobs)) ''5xyz'' =
     getJob sample_jobs ''5xyz''"
proof -
  have l: "length (nat_toString 1700000000000) = length (nat_toString 1700000000001)"
    by (simp add: nat_toString.simps)
  have a: "fst (createJob 1700000000000 ''0.abc'' 1 FullProcess [''a.zip''] []) =
      ''1700000000000abc''"
    by (simp add: createJob_def new_jobId_def substr_2_9_def nat_toString.simps digit_char_def
        char_of_def Let_def bit_Suc_0_iff)
  have b: "fst (createJob 1700000000001 ''0.abc'' 1 FullProcess [''a.zip''] []) =
      ''1700000000001abc''"
    by (simp add: createJob_def new_jobId_def substr_2_9_def nat_toString.simps digit_char_def
        char_of_def Let_def bit_Suc_0_iff)
  have k: "''5xyz'' \<noteq> fst (createJob 1700000000000 ''0.abc'' 1 FullProcess [''a.zip''] sample_jobs)"
    by (simp add: createJob_def new_jobId_def substr_2_9_def nat_toString.simps digit_char_def
        char_of_def Let_def bit_Suc_0_iff)
  have n: "(1700000000000::nat) \<noteq> 1700000000001" by simp
  from createJob_id [of 1700000000000 "''0.abc''" 1 FullProcess "[''a.zip'']" sample_jobs
      "''0.abc''" 1 FullProcess "[''a.zip'']" "[]" "''0.abc''" 1 FullProcess "[''a.zip'']" "[]"
      1700000000000 1700000000001] l n k
  have "fst (createJob 1700000000000 ''0.abc'' 1 FullProcess [''a.zip''] []) \<noteq>
        fst (createJob 1700000000001 ''0.abc'' 1 FullProcess [''a.zip''] [])"
    and "getJob (snd (createJob 1700000000000 ''0.abc'' 1 FullProcess [''a.zip''] sample_jobs))
           ''5xyz'' = getJob sample_jobs ''5xyz''"
    by blast+
  with l a b k show ?thesis by blast
qed

section \<open>Paths under the output directory\<close>

lemma split_slash_nonempty: "split_slash p \<noteq> []"
  by (induction p) (auto split: list.splits)

lemma split_slash_append:
  "split_slash (a @ CHR ''/'' # b) = split_slash a @ split_slash b"
proof (induction a)
  case Nil
  then show ?case by simp
next
  case (Cons c a)
  then show ?case
    using split_slash_nonempty [of a] by (cases "split_slash a") auto
qed

lemma split_slash_no_slash: "s \<in> set (split_slash p) \<Longrightarrow> CHR ''/'' \<notin> set s"
proof (induction p arbitrary: s)
  case Nil
  then show ?case by simp
next
  case (Cons c p)
  then show ?case
    using split_slash_nonempty [of p]
    by (cases "split_slash p") (auto split: if_splits)
qed

lemma split_slash_single: "CHR ''/'' \<notin> set s \<Longrightarrow> split_slash s = [s]"
  by (induction s) auto

lemma split_intercalate:
  "ss \<noteq> [] \<Longrightarrow> \<forall>s \<in> set ss. CHR ''/'' \<notin> set s \<Longrightarrow> split_slash (intercalate_slash ss) = ss"
proof (induction ss rule: intercalate_slash.induct)
  case 1
  then show ?case by simp
next
  case (2 s)
  then show ?case by (simp add: split_slash_single)
next
  case (3 s t ss)
  then show ?case by (simp add: split_slash_append split_slash_single)
qed

lemma intercalate_append:
  "xs \<noteq> [] \<Longrightarrow> ys \<noteq> [] \<Longrightarrow>
   intercalate_slash (xs @ ys) = intercalate_slash xs @ CHR ''/'' # intercalate_slash ys"
proof (induction xs rule: intercalate_slash.induct)
  case 1
  then show ?case by simp
next
  case (2 s)
  then show ?case by (cases ys) simp_all
next
  case (3 s t ss)
  then show ?case by simp
qed

lemma intercalate_nonempty:
  "ss \<noteq> [] \<Longrightarrow> \<forall>s \<in> set ss. s \<noteq> [] \<Longrightarrow> intercalate_slash ss \<noteq> []"
  by (induction ss rule: intercalate_slash.induct) simp_all

lemma last_intercalate:
  "ss \<noteq> [] \<Longrightarrow> \<forall>s \<in> set ss. s \<noteq> [] \<Longrightarrow> last (intercalate_slash ss) = last (last ss)"
proof (induction ss rule: intercalate_slash.induct)
  case 1
  then show ?case by simp
next
  case (2 s)
  then show ?case by simp
next
  case (3 s t ss)
  then have "intercalate_slash (t # ss) \<noteq> []" by (intro intercalate_nonempty) simp_all
  with 3 show ?case by simp
qed

lemma normalizeString_no_dotdot:
  "''..'' \<notin> set ss \<Longrightarrow>
   normalizeString a acc ss = rev acc @ filter (\<lambda>s. s \<noteq> [] \<and> s \<noteq> ''.'') ss"
  by (induction ss arbitrary: acc) auto

lemma normalizeString_append:
  "normalizeString a acc (xs @ ys) = normalizeString a (rev (normalizeString a acc xs)) ys"
  by (induction xs arbitrary: acc) auto

lemma in_set_tl: "x \<in> set (tl xs) \<Longrightarrow> x \<in> set xs"
  by (cases xs) auto

lemma normalizeString_False_segments:
  "s \<in> set (normalizeString False acc ss) \<Longrightarrow>
   s \<in> set acc \<or> (s \<in> set ss \<and> s \<noteq> [] \<and> s \<noteq> ''.'' \<and> s \<noteq> ''..'')"
proof (induction ss arbitrary: acc)
  case Nil
  then show ?case by simp
next
  case (Cons x ss)
  show ?case
  proof (cases "x = [] \<or> x = ''.''")
    case True
    with Cons.prems have "s \<in> set (normalizeString False acc ss)" by auto
    from Cons.IH [OF this] show ?thesis by auto
  next
    case nd: False
    show ?thesis
    proof (cases "x = ''..''")
      case True
      with Cons.prems have "s \<in> set (normalizeString False (tl acc) ss) \<or>
          s \<in> set (normalizeString False acc ss)"
        by (auto split: if_splits)
      then show ?thesis
        using Cons.IH [of "tl acc"] Cons.IH [of acc] True by (auto dest: in_set_tl)
    next
      case False
      with nd Cons.prems have "s \<in> set (normalizeString False (x # acc) ss)" by auto
      from Cons.IH [OF this] nd False show ?thesis by auto
    qed
  qed
qed

lemma outputDir_shape:
  assumes "cwd \<noteq> []" and "hd cwd = CHR ''/''"
  shows "\<exists>osegs. osegs \<noteq> [] \<and> clean_segments osegs \<and>
           outputDir cwd = CHR ''/'' # intercalate_slash osegs"
proof -
  let ?N = "normalizeString False [] (split_slash cwd)"
  let ?o = "?N @ [''outputs'']"
  have sp: "split_slash (cwd @ CHR ''/'' # ''outputs'') = split_slash cwd @ [''outputs'']"
    by (simp add: split_slash_append)
  have n: "normalizeString False [] (split_slash cwd @ [''outputs'']) = ?o"
    by (simp add: normalizeString_append)
  have c: "clean_segments ?o"
    unfolding clean_segments_def
    using normalizeString_False_segments [of _ "[]" "split_slash cwd"] split_slash_no_slash
    by auto
  then have ne: "intercalate_slash ?o \<noteq> []"
    by (intro intercalate_nonempty) (auto simp: clean_segments_def)
  have "outputDir cwd = path_normalize (cwd @ CHR ''/'' # ''outputs'')"
    using assms by (simp add: outputDir_def path_join_def)
  also have "\<dots> = CHR ''/'' # intercalate_slash ?o"
    using assms ne by (simp add: path_normalize_def Let_def sp n)
  finally show ?thesis using c by blast
qed

lemma path_join_inside:
  assumes "cwd \<noteq> []" and "hd cwd = CHR ''/''" and "''..'' \<notin> set (split_slash filename)"
  shows "inside_dir (outputDir cwd) (path_join [outputDir cwd, filename])"
proof -
  from outputDir_shape [OF assms(1,2)] obtain osegs
    where o: "osegs \<noteq> []" and c: "clean_segments osegs"
      and od: "outputDir cwd = CHR ''/'' # intercalate_slash osegs"
    by blast
  let ?O = "outputDir cwd"
  from c have ns: "\<forall>s \<in> set osegs. CHR ''/'' \<notin> set s" and nn: "\<forall>s \<in> set osegs. s \<noteq> []"
    and nd: "''..'' \<notin> set osegs" and keep: "filter (\<lambda>s. s \<noteq> [] \<and> s \<noteq> ''.'') osegs = osegs"
    by (auto simp: clean_segments_def filter_id_conv)
  have spO: "split_slash ?O = [] # osegs"
    using o ns by (simp add: od split_intercalate)
  have neO: "intercalate_slash osegs \<noteq> []" using o nn by (rule intercalate_nonempty)
  show ?thesis
  proof (cases "filename = []")
    case True
    have "last osegs \<in> set osegs" using o by simp
    with nn ns have "last (last osegs) \<in> set (last osegs)" and "CHR ''/'' \<notin> set (last osegs)"
      by simp_all
    then have "last (last osegs) \<noteq> CHR ''/''" by auto
    then have "last (intercalate_slash osegs) \<noteq> CHR ''/''"
      using o nn by (simp add: last_intercalate)
    then have "path_normalize ?O = ?O"
      using neO nd keep spO
      by (simp add: path_normalize_def Let_def normalizeString_no_dotdot) (simp add: od)
    with True show ?thesis by (simp add: path_join_def od inside_dir_def)
  next
    case False
    let ?fs = "filter (\<lambda>s. s \<noteq> [] \<and> s \<noteq> ''.'') (split_slash filename)"
    let ?t = "if last filename = CHR ''/'' then ''/'' else []"
    have sp: "split_slash (?O @ CHR ''/'' # filename) = ([] # osegs) @ split_slash filename"
      by (simp add: split_slash_append spO)
    have n: "normalizeString False [] (osegs @ split_slash filename) = osegs @ ?fs"
      using nd assms(3) keep by (simp add: normalizeString_no_dotdot)
    have ne: "intercalate_slash (osegs @ ?fs) \<noteq> []"
      using o nn by (intro intercalate_nonempty) auto
    have pj: "path_join [?O, filename] = CHR ''/'' # intercalate_slash (osegs @ ?fs) @ ?t"
      using False ne
      by (simp add: path_join_def path_normalize_def Let_def sp n) (simp add: od)
    show ?thesis
    proof (cases "?fs = []")
      case True
      with pj have "path_join [?O, filename] = ?O @ ?t" by (simp add: od)
      then show ?thesis by (simp add: inside_dir_def)
    next
      case False
      with o have "intercalate_slash (osegs @ ?fs) =
          intercalate_slash osegs @ CHR ''/'' # intercalate_slash ?fs"
        by (rule intercalate_append)
      with pj have "path_join [?O, filename] = (?O @ ''/'') @ intercalate_slash ?fs @ ?t"
        by (simp add: od)
      then have "prefix (?O @ ''/'') (path_join [?O, filename])" by (rule prefixI)
      then show ?thesis by (simp add: inside_dir_def)
    qed
  qed
qed

text \<open>
  Claim C1, as stated, fails: \<open>downloadFile\<close> joins the name to the output directory
  and tests nothing but that the resulting path exists. A name with a parent-directory
  segment is resolved outside the output directory and returned, and the route serves
  the file found there.
\<close>

theorem downloadFile_traversal_counterexample:
  "downloadFile sample_world ''/app'' ''../uploads/a.zip'' = Some ''/app/uploads/a.zip'' \<and>
   \<not> inside_dir (outputDir ''/app'') ''/app/uploads/a.zip'' \<and>
   download_GET sample_world ''/app'' ''../uploads/a.zip'' =
     Attachment ''PK-uploaded'' ''../uploads/a.zip''"
  by code_simp

text \<open>
  Claim C1, amended. For every name, \<open>downloadFile\<close> returns the normalised join of
  the output directory and the name when that path exists, and nothing otherwise, in
  which case, and in no other, the route answers 404. With an absolute working directory,
  a name none of whose segments is \<open>..\<close> is resolved inside the output directory, so
  what is returned and served for it lies there.
\<close>

theorem downloadFile_inside:
  "downloadFile w cwd filename =
     (if existsSync w (path_join [outputDir cwd, filename])
      then Some (path_join [outputDir cwd, filename]) else None) \<and>
   (download_GET w cwd filename = Json 404 ''File not found'') =
     (\<not> existsSync w (path_join [outputDir cwd, filename])) \<and>
   (cwd \<noteq> [] \<and> hd cwd = CHR ''/'' \<and> ''..'' \<notin> set (split_slash filename) \<longrightarrow>
      (\<forall>p. downloadFile w cwd filename = Some p \<longrightarrow>
         inside_dir (outputDir cwd) p \<and> existsSync w p) \<and>
      (\<forall>bytes name. download_GET w cwd filename = Attachment bytes name \<longrightarrow>
         (\<exists>p. inside_dir (outputDir cwd) p \<and> existsSync w p \<and> readFile w p = Inr bytes)))"
proof (intro conjI impI)
  show "downloadFile w cwd filename =
     (if existsSync w (path_join [outputDir cwd, filename])
      then Some (path_join [outputDir cwd, filename]) else None)"
    by (simp add: downloadFile_def Let_def)
next
  show "(download_GET w cwd filename = Json 404 ''File not found'') =
     (\<not> existsSync w (path_join [outputDir cwd, filename]))"
    by (auto simp: download_GET_def downloadFile_def Let_def split: sum.splits if_splits)
next
  assume "cwd \<noteq> [] \<and> hd cwd = CHR ''/'' \<and> ''..'' \<notin> set (split_slash filename)"
  then have i: "inside_dir (outputDir cwd) (path_join [outputDir cwd, filename])"
    by (intro path_join_inside) simp_all
  from i show "\<forall>p. downloadFile w cwd filename = Some p \<longrightarrow>
         inside_dir (outputDir cwd) p \<and> existsSync w p"
    by (auto simp: downloadFile_def Let_def split: if_splits)
  from i show "\<forall>bytes name. download_GET w cwd filename = Attachment bytes name \<longrightarrow>
         (\<exists>p. inside_dir (outputDir cwd) p \<and> existsSync w p \<and> readFile w p = Inr bytes)"
    by (auto simp: download_GET_def downloadFile_def Let_def split: sum.splits if_splits)
qed

theorem downloadFile_inside_witness:
  "''/app'' \<noteq> [] \<and> hd ''/app'' = CHR ''/'' \<and> ''..'' \<notin> set (split_slash ''merged_5abc.pdf'') \<and>
   downloadFile sample_world ''/app'' ''merged_5abc.pdf'' = Some ''/app/outputs/merged_5abc.pdf'' \<and>
   inside_dir (outputDir ''/app'') ''/app/outputs/merged_5abc.pdf'' \<and>
   download_GET sample_world ''/app'' ''merged_5abc.pdf'' =
     Attachment ''%PDF-merged'' ''merged_5abc.pdf''"
proof -
  have h1: "''/app'' \<noteq> []" by simp
  have h2: "hd ''/app'' = CHR ''/''" by simp
  have h3: "''..'' \<notin> set (split_slash ''merged_5abc.pdf'')" by code_simp
  have v: "downloadFile sample_world ''/app'' ''merged_5abc.pdf'' =
      Some ''/app/outputs/merged_5abc.pdf''" by code_simp
  have g: "download_GET sample_world ''/app'' ''merged_5abc.pdf'' =
      Attachment ''%PDF-merged'' ''merged_5abc.pdf''" by code_simp
  from downloadFile_inside [of sample_world "''/app''" "''merged_5abc.pdf''"] h1 h2 h3 v
  have "inside_dir (outputDir ''/app'') ''/app/outputs/merged_5abc.pdf''" by blast
  with h1 h2 h3 v g show ?thesis by blast
qed

end
